theory Spec2Isabelle
  imports
    Main
    "HOL-Library.Sublist"
    "HOL-Library.AList"
    "HOL-Library.Char_ord"
    "HOL-Library.List_Lexorder"
begin

section \<open>The isort process wrapper (\<open>isort_runner.py\<close>)\<close>

text \<open>
  The wrapper resolves its inputs, merges first party source roots into an isort
  settings file, runs isort as a subprocess, relays its output and writes a marker.
  The Python standard library and the Bazel runfiles library are not part of the
  repository: their behaviour enters the model as parameters (records of functions),
  so every theorem holds for any behaviour of theirs.

  Strings are \<^typ>\<open>string\<close>; with \<open>Char_ord\<close> and \<open>List_Lexorder\<close> the order on
  strings is the lexicographic order on character codes, which is how Python's
  \<open>sorted\<close> compares \<open>str\<close> values.
\<close>

subsection \<open>Python string operations\<close>

text \<open>\<open>s.endswith(suf)\<close>.\<close>

definition endswith :: "string \<Rightarrow> string \<Rightarrow> bool" where
  "endswith s suf = suffix suf s"

text \<open>\<open>s.split(c)\<close> for a separator of one character: the result is never empty,
  and the empty string splits into one empty element.\<close>

fun str_split :: "char \<Rightarrow> string \<Rightarrow> string list" where
  "str_split c [] = [[]]"
| "str_split c (x # xs) =
     (if x = c then [] # str_split c xs
      else (case str_split c xs of
              [] \<Rightarrow> [[x]]
            | p # ps \<Rightarrow> (x # p) # ps))"

text \<open>\<open>sep.join(xs)\<close>.\<close>

fun str_join :: "string \<Rightarrow> string list \<Rightarrow> string" where
  "str_join sep [] = []"
| "str_join sep [x] = x"
| "str_join sep (x # y # ys) = x @ sep @ str_join sep (y # ys)"

text \<open>\<open>sorted(set(xs))\<close>.\<close>

definition sorted_set :: "string list \<Rightarrow> string list" where
  "sorted_set xs = sorted_list_of_set (set xs)"

subsection \<open>Errors, paths and the file system\<close>

datatype py_error =
    FileNotFoundError string
  | EnvironmentError string
  | NotImplementedError string
  | ValueError string
  | OSError string
  | LibraryError string
  | SystemExit int

text \<open>
  A path is the string \<open>str(path)\<close> of a \<open>pathlib.Path\<close>, which pathlib keeps
  normalised (no trailing slash, \<open>.\<close> for the empty path). \<open>path.name\<close> is the last
  component, empty for the root and for \<open>.\<close>.
\<close>

type_synonym path = string

definition path_name :: "path \<Rightarrow> string" where
  "path_name p =
     (if p = ''.'' then [] else rev (takeWhile (\<lambda>c. c \<noteq> CHR ''/'') (rev p)))"

text \<open>
  The file system maps a path to what is there. The merged settings file is written
  into the directory that \<open>main\<close> has just made, and that write is taken to succeed.
  The marker is written where the command line says: that write raises when the path
  is a directory or its parent is none (\<open>write_file\<close> below). Permissions and disk
  space are not modelled.
\<close>

datatype node = File string | Dir

type_synonym filesystem = "path \<Rightarrow> node option"

subsection \<open>\<open>configparser.ConfigParser\<close>\<close>

text \<open>
  The state of a parser: the options of the default section and the sections in the
  order they were added, each an ordered dictionary from option to value. The
  library's own parts are parameters: parsing a file, interpolation when a value is
  read, the check of a value that is set (which raises or leaves the value as it
  is), and the text written out.
\<close>

type_synonym options = "(string \<times> string) list"

record config =
  cfg_defaults :: options
  cfg_sections :: "(string \<times> options) list"

record configparser =
  cp_parse :: "string \<Rightarrow> py_error + config"
  cp_before_get :: "config \<Rightarrow> string \<Rightarrow> string \<Rightarrow> string \<Rightarrow> py_error + string"
  cp_before_set :: "string \<Rightarrow> py_error option"
  cp_write :: "config \<Rightarrow> string"

definition default_section :: string where
  "default_section = ''DEFAULT''"

definition empty_config :: config where
  "empty_config = \<lparr>cfg_defaults = [], cfg_sections = []\<rparr>"

text \<open>\<open>config.read(filename)\<close>: a file that cannot be opened is skipped.\<close>

definition config_read :: "configparser \<Rightarrow> filesystem \<Rightarrow> path \<Rightarrow> py_error + config" where
  "config_read cp fs filename =
     (case fs filename of
        Some (File text) \<Rightarrow> cp_parse cp text
      | _ \<Rightarrow> Inr empty_config)"

text \<open>\<open>config.sections()\<close>: the section names, without the default section.\<close>

definition sections :: "config \<Rightarrow> string list" where
  "sections config = map fst (cfg_sections config)"

text \<open>\<open>config.add_section(section)\<close>.\<close>

definition add_section :: "config \<Rightarrow> string \<Rightarrow> py_error + config" where
  "add_section config section =
     (if section = default_section then
        Inl (ValueError (''Invalid section name: '' @ section))
      else if section \<in> set (sections config) then
        Inl (LibraryError (''DuplicateSectionError: '' @ section))
      else Inr (config\<lparr>cfg_sections := cfg_sections config @ [(section, [])]\<rparr>))"

text \<open>
  \<open>config.get(section, option, fallback=fallback)\<close>: the section's own value, else the
  default section's, each interpolated; the fallback when the section or the option is
  missing.
\<close>

definition config_get ::
  "configparser \<Rightarrow> config \<Rightarrow> string \<Rightarrow> string \<Rightarrow> string \<Rightarrow> py_error + string" where
  "config_get cp config section option fallback =
     (case map_of (cfg_sections config) section of
        None \<Rightarrow>
          (if section \<noteq> default_section then Inr fallback
           else (case map_of (cfg_defaults config) option of
                   None \<Rightarrow> Inr fallback
                 | Some raw \<Rightarrow> cp_before_get cp config section option raw))
      | Some opts \<Rightarrow>
          (case map_of opts option of
             Some raw \<Rightarrow> cp_before_get cp config section option raw
           | None \<Rightarrow>
               (case map_of (cfg_defaults config) option of
                  None \<Rightarrow> Inr fallback
                | Some raw \<Rightarrow> cp_before_get cp config section option raw)))"

text \<open>\<open>config.set(section, option, value)\<close>: a value that is not empty is checked by
  the interpolation first.\<close>

definition config_set ::
  "configparser \<Rightarrow> config \<Rightarrow> string \<Rightarrow> string \<Rightarrow> string \<Rightarrow> py_error + config" where
  "config_set cp config section option val =
     (case (if val \<noteq> [] then cp_before_set cp val else None) of
        Some e \<Rightarrow> Inl e
      | None \<Rightarrow>
          (if section = [] \<or> section = default_section then
             Inr (config\<lparr>cfg_defaults := AList.update option val (cfg_defaults config)\<rparr>)
           else
             (case map_of (cfg_sections config) section of
                None \<Rightarrow> Inl (LibraryError (''NoSectionError: '' @ section))
              | Some opts \<Rightarrow>
                  Inr (config\<lparr>cfg_sections :=
                        AList.update section (AList.update option val opts)
                          (cfg_sections config)\<rparr>))))"

text \<open>The value a parser holds for an option of a section, as \<open>config.write\<close>
  writes it.\<close>

definition option_value :: "config \<Rightarrow> string \<Rightarrow> string \<Rightarrow> string option" where
  "option_value config section option =
     (case map_of (cfg_sections config) section of
        None \<Rightarrow> None
      | Some opts \<Rightarrow> map_of opts option)"

subsection \<open>\<open>generate_config_with_projects\<close>\<close>

definition cfg_pairs :: "(string \<times> string) list" where
  "cfg_pairs =
     [(''.isort.cfg'', ''settings''),
      (''.cfg'', ''isort''),
      (''.ini'', ''isort''),
      (''pyproject.toml'', ''tool.isort'')]"

text \<open>The section of the first pair whose suffix the name of the file ends with, as
  the loop finds it.\<close>

definition config_section :: "path \<Rightarrow> string option" where
  "config_section existing =
     map_option snd (find (\<lambda>(sfx, sect). endswith (path_name existing) sfx) cfg_pairs)"

text \<open>The new value of \<open>src_paths\<close> (lines 149 to 153).\<close>

definition merged_src_paths :: "string list \<Rightarrow> string \<Rightarrow> string" where
  "merged_src_paths src_paths known_src_paths =
     str_join '',''
       (filter (\<lambda>pkg. pkg \<noteq> [])
          (sorted_set (src_paths @ str_split CHR '','' known_src_paths)))"

text \<open>The parser after the file is read and the section is there (lines 138 to 142).\<close>

definition load_config ::
  "configparser \<Rightarrow> filesystem \<Rightarrow> path \<Rightarrow> string \<Rightarrow> py_error + config" where
  "load_config cp fs existing section =
     (case config_read cp fs existing of
        Inl e \<Rightarrow> Inl e
      | Inr config \<Rightarrow>
          (if section \<notin> set (sections config) then add_section config section
           else Inr config))"

text \<open>The body of the loop once a suffix has matched (lines 138 to 159).\<close>

definition merge_into_section ::
  "configparser \<Rightarrow> filesystem \<Rightarrow> path \<Rightarrow> path \<Rightarrow> string list \<Rightarrow> string
     \<Rightarrow> py_error + filesystem" where
  "merge_into_section cp fs existing output src_paths section =
     (case load_config cp fs existing section of
        Inl e \<Rightarrow> Inl e
      | Inr config \<Rightarrow>
     (case config_get cp config section ''src_paths'' [] of
        Inl e \<Rightarrow> Inl e
      | Inr known_src_paths \<Rightarrow>
     (case config_set cp config section ''src_paths''
             (merged_src_paths src_paths known_src_paths) of
        Inl e \<Rightarrow> Inl e
      | Inr config' \<Rightarrow> Inr (fs(output \<mapsto> File (cp_write cp config'))))))"

text \<open>The loop over the suffix and section pairs (lines 131 to 161).\<close>

fun generate_loop ::
  "configparser \<Rightarrow> filesystem \<Rightarrow> path \<Rightarrow> path \<Rightarrow> string list
     \<Rightarrow> (string \<times> string) list \<Rightarrow> py_error + filesystem" where
  "generate_loop cp fs existing output src_paths [] =
     Inl (ValueError (''Unexpected isort config file '' @ [CHR 0x27] @ existing
                        @ [CHR 0x27] @ ''.''))"
| "generate_loop cp fs existing output src_paths ((sfx, section) # rest) =
     (if \<not> endswith (path_name existing) sfx then
        generate_loop cp fs existing output src_paths rest
      else if endswith sfx ''.toml'' then
        Inl (NotImplementedError ''There is no writer for tomllib'')
      else merge_into_section cp fs existing output src_paths section)"

definition generate_config_with_projects ::
  "configparser \<Rightarrow> filesystem \<Rightarrow> path \<Rightarrow> path \<Rightarrow> string list \<Rightarrow> py_error + filesystem" where
  "generate_config_with_projects cp fs existing output src_paths =
     generate_loop cp fs existing output src_paths cfg_pairs"

subsection \<open>More string and path operations\<close>

text \<open>
  \<open>s.replace(old, new)\<close>: the occurrences of \<open>old\<close> are found from left to right
  without overlap, and the replaced text is not scanned again. For the empty \<open>old\<close>
  Python puts \<open>new\<close> before every character and at the end.
\<close>

fun replace_scan :: "string \<Rightarrow> string \<Rightarrow> string \<Rightarrow> string" where
  "replace_scan old new [] = []"
| "replace_scan old new (c # cs) =
     (if prefix old (c # cs) then new @ replace_scan old new (drop (length old - 1) cs)
      else c # replace_scan old new cs)"

definition str_replace :: "string \<Rightarrow> string \<Rightarrow> string \<Rightarrow> string" where
  "str_replace old new s =
     (if old = [] then new @ concat (map (\<lambda>c. c # new) s)
      else replace_scan old new s)"

text \<open>\<open>sub in s\<close>.\<close>

definition contains :: "string \<Rightarrow> string \<Rightarrow> bool" where
  "contains s sub = sublist sub s"

text \<open>\<open>Path(s)\<close> on POSIX: empty and \<open>.\<close> components and repeated slashes are
  dropped, exactly two leading slashes are kept, the empty path is \<open>.\<close>.\<close>

definition path_root :: "string \<Rightarrow> string" where
  "path_root s =
     (if take 2 s = ''//'' \<and> take 3 s \<noteq> ''///'' then ''//''
      else if take 1 s = ''/'' then ''/''
      else [])"

definition Path :: "string \<Rightarrow> path" where
  "Path s =
     (let root = path_root s;
          parts = filter (\<lambda>x. x \<noteq> [] \<and> x \<noteq> ''.'') (str_split CHR ''/'' s)
      in if root = [] \<and> parts = [] then ''.'' else root @ str_join ''/'' parts)"

text \<open>\<open>a / b\<close>: an absolute \<open>b\<close> replaces \<open>a\<close>.\<close>

definition path_join :: "path \<Rightarrow> string \<Rightarrow> path" where
  "path_join a b =
     Path (if take 1 b = ''/'' then b
           else if a = [] \<or> endswith a ''/'' then a @ b
           else a @ ''/'' @ b)"

text \<open>\<open>path.exists()\<close> and \<open>path.read_text()\<close>.\<close>

definition path_exists :: "filesystem \<Rightarrow> path \<Rightarrow> bool" where
  "path_exists fs p = (fs p \<noteq> None)"

definition read_text :: "filesystem \<Rightarrow> path \<Rightarrow> py_error + string" where
  "read_text fs p =
     (case fs p of
        Some (File text) \<Rightarrow> Inr text
      | Some Dir \<Rightarrow> Inl (OSError (''IsADirectoryError: '' @ p))
      | None \<Rightarrow> Inl (FileNotFoundError p))"

text \<open>
  \<open>path.parent\<close>: the path without its last component; the parent of a single
  relative component is \<open>.\<close>, the parent of the root is the root.
\<close>

definition path_parent :: "path \<Rightarrow> path" where
  "path_parent p =
     (let d = rev (dropWhile (\<lambda>c. c \<noteq> CHR ''/'') (rev p))
      in if d = [] then ''.''
         else if set d \<subseteq> {CHR ''/''} then d
         else butlast d)"

text \<open>The working directory, the root and a path that ends with \<open>..\<close> are
  directories; any other path is one when the file system has a directory there.\<close>

definition is_dir :: "filesystem \<Rightarrow> path \<Rightarrow> bool" where
  "is_dir fs p =
     (p = ''.'' \<or> p = ''/'' \<or> p = ''//'' \<or> path_name p = ''..'' \<or> fs p = Some Dir)"

text \<open>
  \<open>path.write_bytes(data)\<close>: opening a directory for writing raises
  \<open>IsADirectoryError\<close>, a missing parent raises \<open>FileNotFoundError\<close>, a parent that is a
  file raises \<open>NotADirectoryError\<close>; else the file holds the data afterwards.
\<close>

definition write_file :: "filesystem \<Rightarrow> path \<Rightarrow> string \<Rightarrow> py_error + filesystem" where
  "write_file fs p data =
     (if is_dir fs p then Inl (OSError (''IsADirectoryError: '' @ p))
      else if is_dir fs (path_parent p) then Inr (fs(p \<mapsto> File data))
      else if fs (path_parent p) = None then Inl (FileNotFoundError p)
      else Inl (OSError (''NotADirectoryError: '' @ p)))"

text \<open>\<open>shutil.rmtree(d)\<close>.\<close>

definition rmtree :: "filesystem \<Rightarrow> path \<Rightarrow> filesystem" where
  "rmtree fs d = (\<lambda>p. if p = d \<or> prefix (d @ ''/'') p then None else fs p)"

subsection \<open>The process and its surroundings\<close>

text \<open>
  What a run can see and change: the environment variables, the file system, the
  working directory, what has been printed to \<open>sys.stderr\<close> (one entry for each
  \<open>print\<close>), and the subprocesses that have been run, in order.
\<close>

type_synonym environ = "string \<Rightarrow> string option"

record completed_process =
  proc_args :: "string list"
  returncode :: int
  stdout :: string

record world =
  environ :: environ
  files :: filesystem
  cwd :: path
  printed :: "string list"
  spawned :: "completed_process list"

text \<open>
  \<open>Runfiles.Rlocation(key, source_repo)\<close> of a runfiles object: a path, \<open>None\<close>, or an
  exception (the library raises \<open>ValueError\<close> for a key that is not normalised).
  \<open>Runfiles.Create()\<close> gives such an object or \<open>None\<close>.
\<close>

type_synonym runfiles = "string \<Rightarrow> string option \<Rightarrow> py_error + string option"

text \<open>The command line as \<open>argparse\<close> recognises it, in the order of the arguments.\<close>

datatype cli_item =
    MarkerArg string
  | SrcArg string
  | ImportArg string
  | SettingsPathArg string
  | IsortArg string

text \<open>
  The libraries and the interpreter. \<open>pf_argparse\<close> is the scanner of \<open>argparse\<close>: the
  items it recognises, and the exit code when the scan stops early (a usage error or
  \<open>--help\<close>). \<open>pf_run\<close> is \<open>subprocess.run\<close>: the return code, the captured output and
  the file system the subprocess leaves behind.
\<close>

record platform =
  pf_configparser :: configparser
  pf_runfiles_create :: "environ \<Rightarrow> filesystem \<Rightarrow> runfiles option"
  pf_argparse :: "string list \<Rightarrow> cli_item list \<times> int option"
  pf_splitlines :: "string \<Rightarrow> string list"
  pf_mkdtemp :: "string \<Rightarrow> string option \<Rightarrow> filesystem \<Rightarrow> path"
  pf_run :: "string list \<Rightarrow> environ \<Rightarrow> filesystem \<Rightarrow> int \<times> string \<times> filesystem"
  pf_executable :: string
  pf_file :: string

subsection \<open>\<open>_rlocation\<close> and \<open>_maybe_runfile\<close>\<close>

definition rlocation :: "runfiles \<Rightarrow> world \<Rightarrow> string \<Rightarrow> py_error + path" where
  "rlocation runfiles w rlocationpath =
     (case runfiles rlocationpath (environ w ''TEST_WORKSPACE'') of
        Inl e \<Rightarrow> Inl e
      | Inr None \<Rightarrow> Inl (FileNotFoundError (''Failed to find runfile: '' @ rlocationpath))
      | Inr (Some runfile) \<Rightarrow>
          (if runfile = [] then
             Inl (FileNotFoundError (''Failed to find runfile: '' @ rlocationpath))
           else if \<not> path_exists (files w) (Path runfile) then
             Inl (FileNotFoundError
                    (''Runfile does not exist: ('' @ rlocationpath @ '') '' @ Path runfile))
           else Inr (Path runfile)))"

definition maybe_runfile :: "platform \<Rightarrow> world \<Rightarrow> string \<Rightarrow> py_error + path" where
  "maybe_runfile pf w arg =
     (if environ w ''BAZEL_TEST'' = None then Inr (Path arg)
      else (case pf_runfiles_create pf (environ w) (files w) of
              None \<Rightarrow> Inl (EnvironmentError ''Failed to locate runfiles'')
            | Some runfiles \<Rightarrow> rlocation runfiles w arg))"

subsection \<open>\<open>parse_args\<close>\<close>

text \<open>
  The namespace \<open>argparse\<close> fills while it scans: \<open>--src\<close> and \<open>--import\<close> append,
  \<open>--marker\<close> and \<open>--settings-path\<close> store, and the values of \<open>--src\<close> and
  \<open>--settings-path\<close> go through \<open>_maybe_runfile\<close>. Of the exceptions of such a type
  function \<open>argparse\<close> turns a \<open>ValueError\<close> into a usage error (exit status 2) and
  lets the others pass. The required options are checked when the scan is over.
\<close>

definition argparse_type_error :: "py_error \<Rightarrow> py_error" where
  "argparse_type_error e = (case e of ValueError msg \<Rightarrow> SystemExit 2 | _ \<Rightarrow> e)"

record args =
  a_marker :: "path option"
  a_sources :: "path list"
  a_imports :: "path list"
  a_settings_path :: "path option"
  a_isort_args :: "string list"

definition empty_args :: args where
  "empty_args =
     \<lparr>a_marker = None, a_sources = [], a_imports = [], a_settings_path = None,
      a_isort_args = []\<rparr>"

fun collect_args :: "platform \<Rightarrow> world \<Rightarrow> cli_item list \<Rightarrow> args \<Rightarrow> py_error + args" where
  "collect_args pf w [] ns = Inr ns"
| "collect_args pf w (MarkerArg s # rest) ns =
     collect_args pf w rest (ns\<lparr>a_marker := Some (Path s)\<rparr>)"
| "collect_args pf w (SrcArg s # rest) ns =
     (case maybe_runfile pf w s of
        Inl e \<Rightarrow> Inl (argparse_type_error e)
      | Inr p \<Rightarrow> collect_args pf w rest (ns\<lparr>a_sources := a_sources ns @ [p]\<rparr>))"
| "collect_args pf w (ImportArg s # rest) ns =
     collect_args pf w rest (ns\<lparr>a_imports := a_imports ns @ [Path s]\<rparr>)"
| "collect_args pf w (SettingsPathArg s # rest) ns =
     (case maybe_runfile pf w s of
        Inl e \<Rightarrow> Inl (argparse_type_error e)
      | Inr p \<Rightarrow> collect_args pf w rest (ns\<lparr>a_settings_path := Some p\<rparr>))"
| "collect_args pf w (IsortArg s # rest) ns =
     collect_args pf w rest (ns\<lparr>a_isort_args := a_isort_args ns @ [s]\<rparr>)"

definition parse_args :: "platform \<Rightarrow> world \<Rightarrow> string list \<Rightarrow> py_error + args" where
  "parse_args pf w argv =
     (case pf_argparse pf argv of (items, stop) \<Rightarrow>
     (case collect_args pf w items empty_args of
        Inl e \<Rightarrow> Inl e
      | Inr ns \<Rightarrow>
          (case stop of
             Some code \<Rightarrow> Inl (SystemExit code)
           | None \<Rightarrow>
               (if a_sources ns = [] \<or> a_settings_path ns = None then Inl (SystemExit 2)
                else Inr ns))))"

subsection \<open>\<open>locate_first_party_src_paths\<close>\<close>

definition locate_first_party_src_paths ::
  "environ \<Rightarrow> path list \<Rightarrow> py_error + string list" where
  "locate_first_party_src_paths env imps =
     (case env ''PY_VENV_RUNFILES_DIR'' of
        Some d \<Rightarrow> Inr (map (\<lambda>p. path_join (Path d) p) imps)
      | None \<Rightarrow>
          (case env ''RUNFILES_DIR'' of
             Some d \<Rightarrow> Inr (map (\<lambda>p. path_join (Path d) p) imps)
           | None \<Rightarrow> Inl (EnvironmentError ''Unable to locate runfiles directory.'')))"

subsection \<open>\<open>main\<close>\<close>

text \<open>The arguments: from the file named by \<open>PY_ISORT_RUNNER_ARGS_FILE\<close> under a
  Bazel test, else from the command line (lines 166 to 173).\<close>

definition load_args :: "platform \<Rightarrow> world \<Rightarrow> string list \<Rightarrow> py_error + args" where
  "load_args pf w argv =
     (case environ w ''PY_ISORT_RUNNER_ARGS_FILE'' of
        None \<Rightarrow> parse_args pf w argv
      | Some key \<Rightarrow>
          (if environ w ''BAZEL_TEST'' = None then parse_args pf w argv
           else (case pf_runfiles_create pf (environ w) (files w) of
                   None \<Rightarrow> Inl (EnvironmentError ''Failed to locate runfiles'')
                 | Some runfiles \<Rightarrow>
                     (case rlocation runfiles w key of
                        Inl e \<Rightarrow> Inl e
                      | Inr arg_file \<Rightarrow>
                          (case read_text (files w) arg_file of
                             Inl e \<Rightarrow> Inl e
                           | Inr text \<Rightarrow> parse_args pf w (pf_splitlines pf text))))))"

text \<open>The \<open>finally\<close> block (lines 205 to 208).\<close>

definition cleanup :: "world \<Rightarrow> path \<Rightarrow> world" where
  "cleanup w temp_dir =
     (if environ w ''TEST_TMPDIR'' = None then w\<lparr>files := rmtree (files w) temp_dir\<rparr>
      else w)"

text \<open>The sanitised output (lines 212 to 215).\<close>

definition sanitize :: "world \<Rightarrow> string \<Rightarrow> string" where
  "sanitize w out =
     str_replace (cwd w) ''/''
       (case environ w ''RUNFILES_DIR'' of
          None \<Rightarrow> out
        | Some d \<Rightarrow> str_replace d ''//'' out)"

text \<open>
  The \<open>try\<close> block with its \<open>finally\<close> (lines 175 to 208): the temporary directory,
  the merged settings file in it, and the subprocess, whose result is logged. The
  exception of \<open>generate_config_with_projects\<close> passes through the \<open>finally\<close> block.
\<close>

definition run_isort ::
  "platform \<Rightarrow> world \<Rightarrow> args \<Rightarrow> path \<Rightarrow> string list
     \<Rightarrow> (py_error + completed_process) \<times> world" where
  "run_isort pf w args existing imps =
     (let child_env = (environ w)(''PY_ISORT_MAIN'' \<mapsto> pf_file pf);
          temp_dir = pf_mkdtemp pf ''bazel_rules_isort-'' (environ w ''TEST_TMPDIR'') (files w);
          w1 = w\<lparr>files := (files w)(temp_dir \<mapsto> Dir)\<rparr>;
          settings_path = path_join (Path temp_dir) (path_name existing)
      in
     (case generate_config_with_projects (pf_configparser pf) (files w1) existing
             settings_path imps of
        Inl e \<Rightarrow> (Inl e, cleanup w1 temp_dir)
      | Inr fs2 \<Rightarrow>
     (let isort_args =
            [pf_executable pf, pf_file pf] @ [''--settings-path'', settings_path]
              @ a_isort_args args @ a_sources args
      in
     (case pf_run pf isort_args child_env fs2 of (code, out, fs3) \<Rightarrow>
     (let result = \<lparr>proc_args = isort_args, returncode = code, stdout = out\<rparr>
      in (Inr result,
          cleanup (w1\<lparr>files := fs3, spawned := spawned w1 @ [result]\<rparr>) temp_dir))))))"

text \<open>After the subprocess (lines 210 to 223): the sanitised output and \<open>sys.exit\<close>
  with the return code, or the marker, whose write may raise.\<close>

definition report :: "world \<Rightarrow> args \<Rightarrow> completed_process \<Rightarrow> py_error option \<times> world" where
  "report w args result =
     (if returncode result \<noteq> 0 then
        (Some (SystemExit (returncode result)),
         w\<lparr>printed := printed w @ [sanitize w (stdout result)]\<rparr>)
      else
        (case a_marker args of
           None \<Rightarrow> (None, w)
         | Some m \<Rightarrow>
             (case write_file (files w) m [] of
                Inl e \<Rightarrow> (Some e, w)
              | Inr fs \<Rightarrow> (None, w\<lparr>files := fs\<rparr>))))"

text \<open>
  \<open>main\<close> returns the exception that ends it, if any (\<open>sys.exit\<close> raises
  \<open>SystemExit\<close>), and the world it leaves behind. \<open>--settings-path\<close> is required,
  so the namespace that \<open>parse_args\<close> returns always holds one.
\<close>

definition main :: "platform \<Rightarrow> world \<Rightarrow> string list \<Rightarrow> py_error option \<times> world" where
  "main pf w argv =
     (case load_args pf w argv of
        Inl e \<Rightarrow> (Some e, w)
      | Inr args \<Rightarrow>
     (case a_settings_path args of
        None \<Rightarrow> (Some (SystemExit 2), w)
      | Some existing \<Rightarrow>
     (case locate_first_party_src_paths (environ w) (a_imports args) of
        Inl e \<Rightarrow> (Some e, w)
      | Inr imps \<Rightarrow>
     (case run_isort pf w args existing imps of
        (Inl e, w') \<Rightarrow> (Some e, w')
      | (Inr result, w') \<Rightarrow> report w' args result))))"

text \<open>
  The exit status of the interpreter, as the parent process sees it: 0 after a normal
  return, the low eight bits of the code of a \<open>SystemExit\<close> (so 247 for the code -9 of a
  subprocess killed by signal 9), 1 after any other exception.
\<close>

definition exit_status :: "py_error option \<Rightarrow> int" where
  "exit_status r =
     (case r of
        None \<Rightarrow> 0
      | Some (SystemExit code) \<Rightarrow> code mod 256
      | Some _ \<Rightarrow> 1)"

subsection \<open>A small platform to run the model on\<close>

text \<open>
  Concrete stand-ins for the libraries, so that the model can be evaluated on concrete
  inputs: a reader of \<open>[section]\<close> and \<open>key = value\<close> lines without interpolation, a
  scanner of the four options with \<open>--\<close> before the arguments for isort, runfiles under
  \<open>RUNFILES_DIR\<close>, and a subprocess that is given.
\<close>

definition strip :: "string \<Rightarrow> string" where
  "strip s =
     rev (dropWhile (\<lambda>c. c = CHR '' '') (rev (dropWhile (\<lambda>c. c = CHR '' '') s)))"

fun example_parse_lines :: "string list \<Rightarrow> string option \<Rightarrow> config \<Rightarrow> py_error + config" where
  "example_parse_lines [] cur config = Inr config"
| "example_parse_lines (l # ls) cur config =
     (let line = strip l in
      if line = [] \<or> take 1 line = ''#'' \<or> take 1 line = '';'' then
        example_parse_lines ls cur config
      else if take 1 line = ''['' \<and> endswith line '']'' then
        (case add_section config (butlast (tl line)) of
           Inl e \<Rightarrow> Inl e
         | Inr config' \<Rightarrow> example_parse_lines ls (Some (butlast (tl line))) config')
      else
        (case cur of
           None \<Rightarrow> Inl (LibraryError ''MissingSectionHeaderError'')
         | Some section \<Rightarrow>
             (case str_split CHR ''='' line of
                key # v # vs \<Rightarrow>
                  example_parse_lines ls cur
                    (config\<lparr>cfg_sections :=
                       AList.map_entry section
                         (AList.update (strip key) (strip (str_join ''='' (v # vs))))
                         (cfg_sections config)\<rparr>)
              | _ \<Rightarrow> Inl (LibraryError ''ParsingError''))))"

definition example_write :: "config \<Rightarrow> string" where
  "example_write config =
     concat (map (\<lambda>(name, opts).
                ''['' @ name @ '']'' @ [CHR 0x0A]
                  @ concat (map (\<lambda>(k, v). k @ '' = '' @ v @ [CHR 0x0A]) opts)
                  @ [CHR 0x0A])
             (cfg_sections config))"

definition example_configparser :: configparser where
  "example_configparser =
     \<lparr>cp_parse = (\<lambda>text. example_parse_lines (str_split (CHR 0x0A) text) None empty_config),
      cp_before_get = (\<lambda>config section option raw. Inr raw),
      cp_before_set =
        (\<lambda>v. if CHR ''%'' \<in> set v then Some (ValueError ''invalid interpolation syntax'')
             else None),
      cp_write = example_write\<rparr>"

fun example_scan :: "string list \<Rightarrow> cli_item list \<times> int option" where
  "example_scan [] = ([], None)"
| "example_scan [f] = (if take 2 f = ''--'' then ([], Some 2) else ([IsortArg f], None))"
| "example_scan (f # v # rest) =
     (if f = ''--'' then (map IsortArg (v # rest), None)
      else if f = ''--marker'' then
        (case example_scan rest of (items, stop) \<Rightarrow> (MarkerArg v # items, stop))
      else if f = ''--src'' then
        (case example_scan rest of (items, stop) \<Rightarrow> (SrcArg v # items, stop))
      else if f = ''--import'' then
        (case example_scan rest of (items, stop) \<Rightarrow> (ImportArg v # items, stop))
      else if f = ''--settings-path'' then
        (case example_scan rest of (items, stop) \<Rightarrow> (SettingsPathArg v # items, stop))
      else if take 2 f = ''--'' then ([], Some 2)
      else (case example_scan (v # rest) of (items, stop) \<Rightarrow> (IsortArg f # items, stop)))"

text \<open>A subprocess that exits with a given code and output and changes no file.\<close>

definition example_run ::
  "int \<Rightarrow> string \<Rightarrow> string list \<Rightarrow> environ \<Rightarrow> filesystem \<Rightarrow> int \<times> string \<times> filesystem" where
  "example_run code out cmd env fs = (code, out, fs)"

definition example_platform ::
  "(string list \<Rightarrow> environ \<Rightarrow> filesystem \<Rightarrow> int \<times> string \<times> filesystem) \<Rightarrow> platform" where
  "example_platform run =
     \<lparr>pf_configparser = example_configparser,
      pf_runfiles_create =
        (\<lambda>env fs. case env ''RUNFILES_DIR'' of
                     None \<Rightarrow> None
                   | Some d \<Rightarrow> Some (\<lambda>key repo. Inr (Some (d @ ''/'' @ key)))),
      pf_argparse = example_scan,
      pf_splitlines = (\<lambda>text. filter (\<lambda>l. l \<noteq> []) (str_split (CHR 0x0A) text)),
      pf_mkdtemp =
        (\<lambda>pre dir fs. (case dir of None \<Rightarrow> ''/tmp'' | Some d \<Rightarrow> d) @ ''/'' @ pre @ ''0''),
      pf_run = run,
      pf_executable = ''/usr/bin/python3'',
      pf_file = ''/runner/isort_runner.py''\<rparr>"

text \<open>A world with one settings file and one source file, run from \<open>/work\<close>.\<close>

definition example_files :: filesystem where
  "example_files =
     [''/work/.isort.cfg'' \<mapsto> File (''[settings]'' @ [CHR 0x0A] @ ''src_paths = lib,app''
                                        @ [CHR 0x0A]),
      ''/work/a.py'' \<mapsto> File ''import os'',
      ''/work'' \<mapsto> Dir]"

definition example_world :: world where
  "example_world =
     \<lparr>environ = [''RUNFILES_DIR'' \<mapsto> ''/work/run''],
      files = example_files,
      cwd = ''/work'',
      printed = [],
      spawned = []\<rparr>"



definition example_argv :: "string list" where
  "example_argv =
     [''--marker'', ''/work/ok'', ''--src'', ''/work/a.py'', ''--import'', ''app'',
      ''--settings-path'', ''/work/.isort.cfg'', ''--'', ''--check-only'']"


text \<open>A command line whose marker is in a directory that does not exist.\<close>

definition example_argv_lost_marker :: "string list" where
  "example_argv_lost_marker =
     [''--marker'', ''/missing/ok'', ''--src'', ''/work/a.py'', ''--import'', ''app'',
      ''--settings-path'', ''/work/.isort.cfg'']"



subsection \<open>Reading a written value\<close>

text \<open>
  The entries of a comma-separated value: the value split at every comma, and no entry
  for the empty value.
\<close>

definition comma_entries :: "string \<Rightarrow> string list" where
  "comma_entries v = (if v = [] then [] else str_split CHR '','' v)"

text \<open>
  A successful merge, seen from outside: the parser loaded from the existing file (with
  the section added when it was missing) gives \<open>known\<close> for \<open>src_paths\<close> of the
  section; the node at the output path is a file that holds what \<open>config.write\<close> writes
  for a parser whose \<open>src_paths\<close> of that section is \<open>v\<close>, and whose other options of
  the section, other sections and defaults are as loaded.
\<close>

definition merge_written ::
  "configparser \<Rightarrow> filesystem \<Rightarrow> path \<Rightarrow> node option \<Rightarrow> string \<Rightarrow> string \<Rightarrow> string
     \<Rightarrow> bool" where
  "merge_written cp fs existing out_node sect known v =
     (\<exists>config config'.
        load_config cp fs existing sect = Inr config \<and>
        config_get cp config sect ''src_paths'' [] = Inr known \<and>
        out_node = Some (File (cp_write cp config')) \<and>
        option_value config' sect ''src_paths'' = Some v \<and>
        (\<forall>opt. opt \<noteq> ''src_paths'' \<longrightarrow>
           option_value config' sect opt = option_value config sect opt) \<and>
        cfg_defaults config' = cfg_defaults config \<and>
        (\<forall>s. s \<noteq> sect \<longrightarrow>
           map_of (cfg_sections config') s = map_of (cfg_sections config) s))"

text \<open>What a run of \<open>generate_config_with_projects\<close> leaves at a path: nothing
  when it raised.\<close>

definition written_at :: "py_error + filesystem \<Rightarrow> path \<Rightarrow> node option" where
  "written_at r p = (case r of Inl e \<Rightarrow> None | Inr fs \<Rightarrow> fs p)"

text \<open>The pieces of \<open>s\<close> between the occurrences of \<open>old\<close> that \<open>s.replace(old, new)\<close>
  replaces, for \<open>old\<close> not empty.\<close>

fun pieces :: "string \<Rightarrow> string \<Rightarrow> string list" where
  "pieces old [] = [[]]"
| "pieces old (c # cs) =
     (if prefix old (c # cs) then [] # pieces old (drop (length old - 1) cs)
      else (case pieces old cs of
              [] \<Rightarrow> [[c]]
            | p # ps \<Rightarrow> (c # p) # ps))"

section \<open>Properties\<close>

subsection \<open>Splitting and joining\<close>

lemma str_split_not_Nil: "str_split c s \<noteq> []"
  by (induction s) (auto split: list.splits)

lemma str_split_no_sep: "p \<in> set (str_split c s) \<Longrightarrow> c \<notin> set p"
  by (induction s arbitrary: p) (auto split: list.splits if_splits)

lemma str_split_append_sep:
  "c \<notin> set x \<Longrightarrow> str_split c (x @ c # rest) = x # str_split c rest"
  by (induction x) (auto split: list.splits simp: str_split_not_Nil)

lemma str_split_plain: "c \<notin> set x \<Longrightarrow> str_split c x = [x]"
  by (induction x) (auto split: list.splits)

lemma str_split_join:
  "xs \<noteq> [] \<Longrightarrow> \<forall>x\<in>set xs. c \<notin> set x \<Longrightarrow> str_split c (str_join [c] xs) = xs"
proof (induction "[c]" xs rule: str_join.induct)
  case 1
  then show ?case by simp
next
  case (2 x)
  then show ?case by (simp add: str_split_plain)
next
  case (3 x y ys)
  then show ?case by (simp add: str_split_append_sep)
qed

lemma str_join_Nil_iff:
  "\<forall>x\<in>set xs. x \<noteq> [] \<Longrightarrow> str_join sep xs = [] \<longleftrightarrow> xs = []"
  by (induction sep xs rule: str_join.induct) auto

lemma comma_entries_join:
  assumes "\<forall>x\<in>set xs. x \<noteq> [] \<and> CHR '','' \<notin> set x"
  shows "comma_entries (str_join '','' xs) = xs"
proof (cases "xs = []")
  case True
  then show ?thesis by (simp add: comma_entries_def)
next
  case False
  with assms have "str_join '','' xs \<noteq> []"
    by (simp add: str_join_Nil_iff)
  moreover have "str_split CHR '','' (str_join [CHR '',''] xs) = xs"
    using False assms by (intro str_split_join) auto
  ultimately show ?thesis by (simp add: comma_entries_def)
qed

lemma sorted_filter_same: "sorted xs \<Longrightarrow> sorted (filter P xs)"
  for xs :: "'a::linorder list"
  by (induction xs) auto

lemma count_list_distinct: "distinct xs \<Longrightarrow> x \<in> set xs \<Longrightarrow> count_list xs x = 1"
  by (induction xs) auto


subsection \<open>The merged value\<close>

text \<open>The list that is joined is sorted, has no duplicates and no empty string. When
  no source path contains a comma, these are the entries of the value.\<close>

lemma merged_list_set:
  "set (filter (\<lambda>pkg. pkg \<noteq> []) (sorted_set (src_paths @ str_split CHR '','' known)))
     = (set src_paths \<union> set (str_split CHR '','' known)) - {[]}"
  by (auto simp: sorted_set_def)

lemma merged_list_sorted:
  "sorted (filter (\<lambda>pkg. pkg \<noteq> []) (sorted_set xs))"
  by (simp add: sorted_set_def sorted_filter_same)

lemma merged_list_distinct:
  "distinct (filter (\<lambda>pkg. pkg \<noteq> []) (sorted_set xs))"
  by (simp add: sorted_set_def)

lemma comma_entries_merged:
  assumes "\<forall>p\<in>set src_paths. CHR '','' \<notin> set p"
  shows "comma_entries (merged_src_paths src_paths known)
           = filter (\<lambda>pkg. pkg \<noteq> []) (sorted_set (src_paths @ str_split CHR '','' known))"
  unfolding merged_src_paths_def
proof (rule comma_entries_join, intro ballI conjI)
  fix x
  assume x: "x \<in> set (filter (\<lambda>pkg. pkg \<noteq> []) (sorted_set (src_paths @ str_split CHR '','' known)))"
  then show "x \<noteq> []" by simp
  from x have "x \<in> set src_paths \<or> x \<in> set (str_split CHR '','' known)"
    by (auto simp: sorted_set_def)
  then show "CHR '','' \<notin> set x"
    using assms str_split_no_sep by blast
qed

lemma sorted_set_cong: "set xs = set ys \<Longrightarrow> sorted_set xs = sorted_set ys"
  by (simp add: sorted_set_def)

lemma filter_sorted_set:
  "filter P (sorted_set xs) = sorted_set (filter P xs)"
proof -
  have "sorted_list_of_set (set (filter P (sorted_set xs))) = filter P (sorted_set xs)"
    by (rule sorted_list_of_set.idem_if_sorted_distinct)
      (simp_all add: sorted_set_def sorted_filter_same)
  moreover have "set (filter P (sorted_set xs)) = set (filter P xs)"
    by (simp add: sorted_set_def)
  ultimately show ?thesis by (simp add: sorted_set_def)
qed

lemma merged_idem:
  assumes "\<forall>p\<in>set src_paths. CHR '','' \<notin> set p"
  shows "merged_src_paths src_paths (merged_src_paths src_paths known)
           = merged_src_paths src_paths known"
proof -
  let ?v = "merged_src_paths src_paths known"
  let ?L = "filter (\<lambda>pkg. pkg \<noteq> []) (sorted_set (src_paths @ str_split CHR '','' known))"
  have ent: "comma_entries ?v = ?L" by (rule comma_entries_merged [OF assms])
  have "set (filter (\<lambda>pkg. pkg \<noteq> []) (str_split CHR '','' ?v)) = set ?L"
  proof (cases "?v = []")
    case True
    with ent show ?thesis by (simp add: comma_entries_def)
  next
    case False
    with ent show ?thesis by (simp add: comma_entries_def)
  qed
  then have "set (filter (\<lambda>pkg. pkg \<noteq> []) (src_paths @ str_split CHR '','' ?v))
               = set (filter (\<lambda>pkg. pkg \<noteq> []) (src_paths @ str_split CHR '','' known))"
    by (auto simp: sorted_set_def)
  then have "sorted_set (filter (\<lambda>pkg. pkg \<noteq> []) (src_paths @ str_split CHR '','' ?v))
               = sorted_set (filter (\<lambda>pkg. pkg \<noteq> []) (src_paths @ str_split CHR '','' known))"
    by (rule sorted_set_cong)
  then show ?thesis
    by (simp only: merged_src_paths_def filter_sorted_set)
qed


lemma str_split_append:
  "str_split c (x @ c # rest) = str_split c x @ str_split c rest"
proof (induction x)
  case Nil
  show ?case by simp
next
  case (Cons a x)
  obtain p ps where "str_split c x = p # ps"
    using str_split_not_Nil [of c x] by (cases "str_split c x") auto
  with Cons show ?case by simp
qed

lemma str_split_join_concat:
  "xs \<noteq> [] \<Longrightarrow> str_split c (str_join [c] xs) = concat (map (str_split c) xs)"
proof (induction "[c]" xs rule: str_join.induct)
  case 1
  then show ?case by simp
next
  case (2 x)
  then show ?case by simp
next
  case (3 x y ys)
  then show ?case by (simp add: str_split_append)
qed

text \<open>An empty entry of the merged value comes from a source path with an empty piece
  between its own commas, and from nowhere else.\<close>

lemma empty_entry_merged:
  "[] \<in> set (comma_entries (merged_src_paths src_paths known)) \<longleftrightarrow>
     (\<exists>p\<in>set src_paths. p \<noteq> [] \<and> [] \<in> set (str_split CHR '','' p))"
proof -
  let ?L = "filter (\<lambda>pkg. pkg \<noteq> []) (sorted_set (src_paths @ str_split CHR '','' known))"
  have v: "merged_src_paths src_paths known = str_join '','' ?L"
    by (simp add: merged_src_paths_def)
  have known: "[] \<notin> set (str_split CHR '','' x)"
    if "x \<in> set (str_split CHR '','' known)" and "x \<noteq> []" for x
  proof -
    from that(1) have "CHR '','' \<notin> set x" by (rule str_split_no_sep)
    then have "str_split CHR '','' x = [x]" by (rule str_split_plain)
    with that(2) show ?thesis by simp
  qed
  show ?thesis
  proof (cases "?L = []")
    case True
    then have "\<forall>p\<in>set src_paths. p = []"
      by (auto simp: filter_empty_conv sorted_set_def)
    with True show ?thesis by (simp add: v comma_entries_def)
  next
    case False
    then have ne: "str_join '','' ?L \<noteq> []"
      by (subst str_join_Nil_iff) simp_all
    have "comma_entries (str_join '','' ?L) = concat (map (str_split CHR '','') ?L)"
      using str_split_join_concat [OF False, of "CHR '',''"] ne
      by (simp add: comma_entries_def)
    then have "[] \<in> set (comma_entries (merged_src_paths src_paths known)) \<longleftrightarrow>
        (\<exists>x\<in>set ?L. [] \<in> set (str_split CHR '','' x))"
      by (simp add: v)
    also have "\<dots> \<longleftrightarrow> (\<exists>p\<in>set src_paths. p \<noteq> [] \<and> [] \<in> set (str_split CHR '','' p))"
      using known by (auto simp: sorted_set_def)
    finally show ?thesis .
  qed
qed

subsection \<open>The suffix table and a successful merge\<close>

lemma generate_config_cases:
  "generate_config_with_projects cp fs existing output src_paths =
     (if endswith (path_name existing) ''.isort.cfg'' then
        merge_into_section cp fs existing output src_paths ''settings''
      else if endswith (path_name existing) ''.cfg'' then
        merge_into_section cp fs existing output src_paths ''isort''
      else if endswith (path_name existing) ''.ini'' then
        merge_into_section cp fs existing output src_paths ''isort''
      else if endswith (path_name existing) ''pyproject.toml'' then
        Inl (NotImplementedError ''There is no writer for tomllib'')
      else
        Inl (ValueError (''Unexpected isort config file '' @ [CHR 0x27] @ existing
                           @ [CHR 0x27] @ ''.'')))"
  by (simp add: generate_config_with_projects_def cfg_pairs_def endswith_def suffix_def)

lemma option_value_config_set:
  assumes "config_set cp config section option val = Inr config'"
    and "section \<noteq> []" and "section \<noteq> default_section"
  shows "option_value config' section option = Some val"
    and "s \<noteq> section \<Longrightarrow> map_of (cfg_sections config') s = map_of (cfg_sections config) s"
    and "cfg_defaults config' = cfg_defaults config"
    and "opt \<noteq> option \<Longrightarrow> option_value config' section opt = option_value config section opt"
  using assms
  by (auto simp: config_set_def option_value_def update_conv'
      split: if_splits option.splits)

lemma merge_into_section_Inr:
  assumes "merge_into_section cp fs existing output src_paths sect = Inr fs'"
    and "sect \<noteq> []" and "sect \<noteq> default_section"
  obtains known where
    "fs' = fs(output \<mapsto> the (fs' output))"
    "merge_written cp fs existing (fs' output) sect known (merged_src_paths src_paths known)"
proof -
  from assms(1) obtain cfg known cfg' where
    1: "load_config cp fs existing sect = Inr cfg"
    and 2: "config_get cp cfg sect ''src_paths'' [] = Inr known"
    and 3: "config_set cp cfg sect ''src_paths'' (merged_src_paths src_paths known) = Inr cfg'"
    and 4: "fs' = fs(output \<mapsto> File (cp_write cp cfg'))"
    by (auto simp: merge_into_section_def split: sum.splits)
  from 4 have 5: "fs' output = Some (File (cp_write cp cfg'))" by simp
  have "merge_written cp fs existing (fs' output) sect known (merged_src_paths src_paths known)"
    unfolding merge_written_def
    using 1 2 5 option_value_config_set [OF 3 assms(2,3)] by blast
  moreover from 4 have "fs' = fs(output \<mapsto> the (fs' output))" by simp
  ultimately show thesis using that by blast
qed

lemma generate_config_Inr:
  assumes "generate_config_with_projects cp fs existing output src_paths = Inr fs'"
  obtains sect known where
    "config_section existing = Some sect"
    "fs' = fs(output \<mapsto> the (fs' output))"
    "merge_written cp fs existing (fs' output) sect known (merged_src_paths src_paths known)"
proof -
  consider
    (a) "endswith (path_name existing) ''.isort.cfg''"
        "merge_into_section cp fs existing output src_paths ''settings'' = Inr fs'"
  | (b) "\<not> endswith (path_name existing) ''.isort.cfg''"
        "endswith (path_name existing) ''.cfg'' \<or> endswith (path_name existing) ''.ini''"
        "merge_into_section cp fs existing output src_paths ''isort'' = Inr fs'"
    using assms by (auto simp: generate_config_cases split: if_splits)
  then show thesis
  proof cases
    case a
    from a(1) have "config_section existing = Some ''settings''"
      by (simp add: config_section_def cfg_pairs_def)
    with a(2) show thesis
      by (elim merge_into_section_Inr) (auto simp: default_section_def intro: that)
  next
    case b
    from b(1,2) have "config_section existing = Some ''isort''"
      by (auto simp: config_section_def cfg_pairs_def)
    with b(3) show thesis
      by (elim merge_into_section_Inr) (auto simp: default_section_def intro: that)
  qed
qed




lemma merge_written_known:
  assumes "merge_written cp fs existing out_node sect known v"
  shows "(case load_config cp fs existing sect of
            Inl e \<Rightarrow> Inl e
          | Inr config \<Rightarrow> config_get cp config sect ''src_paths'' []) = Inr known"
  using assms by (auto simp: merge_written_def)

lemma unsupported_cases:
  assumes "\<not> endswith (path_name existing) ''.cfg''"
    and "\<not> endswith (path_name existing) ''.ini''"
  shows "generate_config_with_projects cp fs existing output src_paths =
           (if endswith (path_name existing) ''pyproject.toml'' then
              Inl (NotImplementedError ''There is no writer for tomllib'')
            else
              Inl (ValueError (''Unexpected isort config file '' @ [CHR 0x27] @ existing
                                 @ [CHR 0x27] @ ''.'')))"
proof -
  have "\<not> endswith (path_name existing) ''.isort.cfg''"
  proof
    assume "endswith (path_name existing) ''.isort.cfg''"
    moreover have "suffix ''.cfg'' ''.isort.cfg''" by (simp add: suffix_def)
    ultimately have "endswith (path_name existing) ''.cfg''"
      unfolding endswith_def by (rule suffix_order.trans [rotated])
    with assms(1) show False by contradiction
  qed
  with assms show ?thesis by (simp add: generate_config_cases)
qed

lemma toml_unsupported:
  assumes "endswith s ''.toml''"
  shows "\<not> endswith s ''.cfg''" and "\<not> endswith s ''.ini''"
proof -
  from assms have l: "last s = CHR ''l''"
    by (auto simp: endswith_def suffix_def)
  show "\<not> endswith s ''.cfg''"
  proof
    assume "endswith s ''.cfg''"
    then have "last s = CHR ''g''" by (auto simp: endswith_def suffix_def)
    with l show False by simp
  qed
  show "\<not> endswith s ''.ini''"
  proof
    assume "endswith s ''.ini''"
    then have "last s = CHR ''i''" by (auto simp: endswith_def suffix_def)
    with l show False by simp
  qed
qed

subsection \<open>Replacing\<close>

lemma pieces_not_Nil: "pieces old s \<noteq> []"
  by (induction old s rule: pieces.induct) (auto split: list.splits)

lemma str_join_Cons: "xs \<noteq> [] \<Longrightarrow> str_join sep (x # xs) = x @ sep @ str_join sep xs"
  by (cases xs) simp_all

lemma str_join_Cons_Cons: "str_join sep ((c # p) # ps) = c # str_join sep (p # ps)"
  by (cases ps) simp_all

lemma prefix_drop: "old \<noteq> [] \<Longrightarrow> prefix old (c # cs) \<Longrightarrow> c # cs = old @ drop (length old - 1) cs"
  by (cases old) (auto simp: prefix_def)

lemma replace_scan_pieces:
  "old \<noteq> [] \<Longrightarrow> replace_scan old new s = str_join new (pieces old s)"
proof (induction old s rule: pieces.induct)
  case (1 old)
  then show ?case by simp
next
  case (2 old c cs)
  show ?case
  proof (cases "prefix old (c # cs)")
    case True
    with 2 show ?thesis by (simp add: str_join_Cons pieces_not_Nil)
  next
    case False
    obtain p ps where ps: "pieces old cs = p # ps"
      using pieces_not_Nil [of old cs] by (cases "pieces old cs") auto
    with False 2 show ?thesis by (simp add: str_join_Cons_Cons)
  qed
qed

lemma join_pieces: "old \<noteq> [] \<Longrightarrow> str_join old (pieces old s) = s"
proof (induction old s rule: pieces.induct)
  case (1 old)
  then show ?case by simp
next
  case (2 old c cs)
  show ?case
  proof (cases "prefix old (c # cs)")
    case True
    with 2 have "str_join old (pieces old (c # cs)) = old @ drop (length old - 1) cs"
      by (simp add: str_join_Cons pieces_not_Nil)
    also have "\<dots> = c # cs" using prefix_drop [OF 2(3) True] by simp
    finally show ?thesis .
  next
    case False
    obtain p ps where ps: "pieces old cs = p # ps"
      using pieces_not_Nil [of old cs] by (cases "pieces old cs") auto
    with False 2 show ?thesis by (simp add: str_join_Cons_Cons)
  qed
qed

lemma first_piece_prefix: "pieces old s = p # ps \<Longrightarrow> prefix p s"
  by (induction old s arbitrary: p ps rule: pieces.induct)
     (auto split: if_splits list.splits)

lemma pieces_free:
  "old \<noteq> [] \<Longrightarrow> p \<in> set (pieces old s) \<Longrightarrow> \<not> sublist old p"
proof (induction old s arbitrary: p rule: pieces.induct)
  case (1 old)
  then show ?case by simp
next
  case (2 old c cs)
  show ?case
  proof (cases "prefix old (c # cs)")
    case True
    with 2 show ?thesis by auto
  next
    case False
    obtain q qs where qs: "pieces old cs = q # qs"
      using pieces_not_Nil [of old cs] by (cases "pieces old cs") auto
    with False 2(4) have "p = c # q \<or> p \<in> set qs" by simp
    then show ?thesis
    proof
      assume p: "p = c # q"
      have "\<not> sublist old q"
        using 2(2) [OF False 2(3)] qs by simp
      moreover have "\<not> prefix old (c # q)"
      proof
        assume "prefix old (c # q)"
        moreover have "prefix (c # q) (c # cs)"
          using first_piece_prefix [OF qs] by simp
        ultimately have "prefix old (c # cs)" by (rule prefix_order.trans)
        with False show False by contradiction
      qed
      ultimately show ?thesis by (simp add: p sublist_Cons_right)
    next
      assume "p \<in> set qs"
      then show ?thesis using 2(2) [OF False 2(3)] qs by simp
    qed
  qed
qed

lemma str_replace_pieces:
  assumes "old \<noteq> []"
  shows "str_replace old new s = str_join new (pieces old s)"
    and "str_join old (pieces old s) = s"
    and "\<forall>p\<in>set (pieces old s). \<not> contains p old"
  using assms
  by (simp_all add: str_replace_def replace_scan_pieces join_pieces pieces_free contains_def)


subsection \<open>The stages of \<open>main\<close>\<close>

lemma cleanup_fields:
  "environ (cleanup w d) = environ w"
  "cwd (cleanup w d) = cwd w"
  "printed (cleanup w d) = printed w"
  "spawned (cleanup w d) = spawned w"
  by (simp_all add: cleanup_def)

lemma run_isort_Inl:
  assumes "run_isort pf w args existing imps = (Inl e, w')"
  shows "spawned w' = spawned w" and "printed w' = printed w"
  using assms
  by (auto simp: run_isort_def Let_def cleanup_fields split: sum.splits prod.splits)

lemma run_isort_Inr:
  assumes "run_isort pf w args existing imps = (Inr result, w')"
  shows "spawned w' = spawned w @ [result]" and "printed w' = printed w"
    and "environ w' = environ w" and "cwd w' = cwd w"
  using assms
  by (auto simp: run_isort_def Let_def cleanup_fields split: sum.splits prod.splits)

lemma write_file_Inl:
  assumes "write_file fs p d = Inl e"
  shows "is_dir fs p \<or> \<not> is_dir fs (path_parent p)"
    and "\<exists>msg. e = OSError msg \<or> e = FileNotFoundError msg"
  using assms by (auto simp: write_file_def split: if_splits)

lemma write_file_Inr:
  assumes "write_file fs p d = Inr fs'"
  shows "fs' = fs(p \<mapsto> File d)"
    and "\<not> is_dir fs' p"
    and "is_dir fs' (path_parent p)"
proof -
  from assms have a: "\<not> is_dir fs p" "is_dir fs (path_parent p)" and b: "fs' = fs(p \<mapsto> File d)"
    by (auto simp: write_file_def split: if_splits)
  from a have ne: "path_parent p \<noteq> p" by auto
  show "fs' = fs(p \<mapsto> File d)" by (rule b)
  from a(1) show "\<not> is_dir fs' p" by (simp add: b is_dir_def)
  from a(2) ne show "is_dir fs' (path_parent p)" by (simp add: b is_dir_def)
qed

lemma exit_status_write_error:
  "write_file fs p d = Inl e \<Longrightarrow> exit_status (Some e) = 1"
  using write_file_Inl(2) [of fs p d e] by (auto simp: exit_status_def)

lemma report_fields:
  assumes "report w args result = (r, w')"
  shows "spawned w' = spawned w"
    and "returncode result \<noteq> 0 \<Longrightarrow>
           r = Some (SystemExit (returncode result)) \<and>
           printed w' = printed w @ [sanitize w (stdout result)] \<and> files w' = files w"
    and "returncode result = 0 \<Longrightarrow> printed w' = printed w"
    and "returncode result = 0 \<Longrightarrow> a_marker args = None \<Longrightarrow> r = None"
    and "returncode result = 0 \<Longrightarrow> a_marker args = Some m \<Longrightarrow>
           (r = None \<and> files w' m = Some (File []) \<and>
            \<not> is_dir (files w') m \<and> is_dir (files w') (path_parent m)) \<or>
           (\<exists>e. r = Some e \<and> write_file (files w') m [] = Inl e \<and>
                (is_dir (files w') m \<or> \<not> is_dir (files w') (path_parent m)))"
proof -
  from assms show "spawned w' = spawned w"
    by (auto simp: report_def split: if_splits option.splits sum.splits)
  from assms show "returncode result \<noteq> 0 \<Longrightarrow>
           r = Some (SystemExit (returncode result)) \<and>
           printed w' = printed w @ [sanitize w (stdout result)] \<and> files w' = files w"
    by (auto simp: report_def)
  from assms show "returncode result = 0 \<Longrightarrow> printed w' = printed w"
    by (auto simp: report_def split: option.splits sum.splits)
  from assms show "returncode result = 0 \<Longrightarrow> a_marker args = None \<Longrightarrow> r = None"
    by (auto simp: report_def)
  show "(r = None \<and> files w' m = Some (File []) \<and>
            \<not> is_dir (files w') m \<and> is_dir (files w') (path_parent m)) \<or>
           (\<exists>e. r = Some e \<and> write_file (files w') m [] = Inl e \<and>
                (is_dir (files w') m \<or> \<not> is_dir (files w') (path_parent m)))"
    if z: "returncode result = 0" and m: "a_marker args = Some m"
  proof (cases "write_file (files w) m []")
    case (Inl e)
    with assms z m have "r = Some e" "w' = w" by (auto simp: report_def)
    with Inl write_file_Inl(1) [OF Inl] show ?thesis by simp
  next
    case (Inr fs)
    with assms z m have "r = None" "files w' = fs" by (auto simp: report_def)
    with write_file_Inr [OF Inr] show ?thesis by simp
  qed
qed

lemma sanitize_cong:
  "environ w' = environ w \<Longrightarrow> cwd w' = cwd w \<Longrightarrow> sanitize w' out = sanitize w out"
  by (simp add: sanitize_def)

lemma main_cases:
  assumes "main pf w argv = (r, w')"
  obtains
    (failed) e where "r = Some e" "spawned w' = spawned w" "printed w' = printed w"
  | (ran) args existing imps result w2 where
      "load_args pf w argv = Inr args"
      "a_settings_path args = Some existing"
      "locate_first_party_src_paths (environ w) (a_imports args) = Inr imps"
      "run_isort pf w args existing imps = (Inr result, w2)"
      "report w2 args result = (r, w')"
proof (cases "load_args pf w argv")
  case (Inl e)
  with assms failed show ?thesis by (auto simp: main_def)
next
  case args: (Inr args)
  show ?thesis
  proof (cases "a_settings_path args")
    case None
    with args assms failed show ?thesis by (auto simp: main_def)
  next
    case ex: (Some existing)
    show ?thesis
    proof (cases "locate_first_party_src_paths (environ w) (a_imports args)")
      case (Inl e)
      with args ex assms failed show ?thesis by (auto simp: main_def)
    next
      case imps: (Inr imps)
      obtain x w2 where run: "run_isort pf w args existing imps = (x, w2)"
        by (cases "run_isort pf w args existing imps")
      show ?thesis
      proof (cases x)
        case (Inl e)
        with run args ex imps assms have "r = Some e" "w' = w2"
          by (auto simp: main_def)
        with run_isort_Inl [of pf w args existing imps e w2] run Inl failed
        show ?thesis by auto
      next
        case (Inr result)
        with run args ex imps assms have "report w2 args result = (r, w')"
          by (auto simp: main_def)
        with run Inr args ex imps ran show ?thesis by auto
      qed
    qed
  qed
qed

lemma main_ran:
  assumes "main pf w argv = (r, w')" and "spawned w' = spawned w @ [proc]"
  obtains args w2 where
    "load_args pf w argv = Inr args"
    "report w2 args proc = (r, w')"
    "printed w2 = printed w"
    "sanitize w2 (stdout proc) = sanitize w (stdout proc)"
  using assms(1)
proof (cases rule: main_cases)
  case (failed e)
  with assms(2) show ?thesis by simp
next
  case (ran args existing imps result w2)
  note run = run_isort_Inr [OF ran(4)]
  from assms(2) report_fields(1) [OF ran(5)] run(1) have proc: "proc = result" by simp
  have "sanitize w2 (stdout proc) = sanitize w (stdout proc)"
    using run(3,4) by (rule sanitize_cong)
  with ran(1,5) run(2) proc that show ?thesis by simp
qed

lemma main_nonzero:
  assumes "main pf w argv = (r, w')" and "spawned w' = spawned w @ [proc]"
    and "returncode proc \<noteq> 0"
  shows "r = Some (SystemExit (returncode proc))"
    and "printed w' = printed w @ [sanitize w (stdout proc)]"
proof -
  from assms(1,2) obtain args w2 where
    rep: "report w2 args proc = (r, w')" and p: "printed w2 = printed w"
    and s: "sanitize w2 (stdout proc) = sanitize w (stdout proc)"
    by (rule main_ran)
  from report_fields(2) [OF rep assms(3)] p s
  show "r = Some (SystemExit (returncode proc))"
    and "printed w' = printed w @ [sanitize w (stdout proc)]"
    by simp_all
qed

lemma main_zero:
  assumes "main pf w argv = (r, w')" and "spawned w' = spawned w @ [proc]"
    and "returncode proc = 0"
    and "load_args pf w argv = Inr args"
  shows "printed w' = printed w"
    and "a_marker args = None \<Longrightarrow> r = None"
    and "a_marker args = Some m \<Longrightarrow>
           (r = None \<and> files w' m = Some (File []) \<and>
            \<not> is_dir (files w') m \<and> is_dir (files w') (path_parent m)) \<or>
           (\<exists>e. r = Some e \<and> write_file (files w') m [] = Inl e \<and>
                (is_dir (files w') m \<or> \<not> is_dir (files w') (path_parent m)))"
proof -
  from assms(1,2) obtain args' w2 where
    la: "load_args pf w argv = Inr args'"
    and rep': "report w2 args' proc = (r, w')" and p: "printed w2 = printed w"
    by (rule main_ran)
  from la assms(4) have "args' = args" by simp
  with rep' have rep: "report w2 args proc = (r, w')" by simp
  from report_fields(3) [OF rep assms(3)] p show "printed w' = printed w" by simp
  show "r = None" if "a_marker args = None"
    using report_fields(4) [OF rep assms(3) that] .
  show "(r = None \<and> files w' m = Some (File []) \<and>
            \<not> is_dir (files w') m \<and> is_dir (files w') (path_parent m)) \<or>
           (\<exists>e. r = Some e \<and> write_file (files w') m [] = Inl e \<and>
                (is_dir (files w') m \<or> \<not> is_dir (files w') (path_parent m)))"
    if "a_marker args = Some m"
    using report_fields(5) [OF rep assms(3) that] .
qed


section \<open>The claims\<close>

subsection \<open>Merging source paths\<close>

text \<open>
  C1, as amended. For a settings file with a supported suffix, a successful merge
  writes as \<open>src_paths\<close> the paths joined by commas, with no path twice: every path
  of the list and every entry of the file's own \<open>src_paths\<close>, unless empty, is joined
  exactly once. When no source path contains a comma, the joined paths are the
  comma-separated entries of the written value, and merging the same list into the
  written value gives that value again.
\<close>

theorem merge_deduplicates:
  assumes "generate_config_with_projects cp fs existing output src_paths = Inr fs'"
  shows "\<exists>sect known v paths.
           config_section existing = Some sect \<and>
           v = merged_src_paths src_paths known \<and>
           merge_written cp fs existing (fs' output) sect known v \<and>
           v = str_join '','' paths \<and>
           distinct paths \<and>
           (\<forall>p\<in>set src_paths \<union> set (comma_entries known).
              p \<noteq> [] \<longrightarrow> count_list paths p = 1) \<and>
           ((\<forall>p\<in>set src_paths. CHR '','' \<notin> set p) \<longrightarrow>
              comma_entries v = paths \<and> merged_src_paths src_paths v = v)"
proof -
  from assms(1) obtain sect known where
    s: "config_section existing = Some sect" and
    w: "merge_written cp fs existing (fs' output) sect known (merged_src_paths src_paths known)"
    by (rule generate_config_Inr)
  let ?v = "merged_src_paths src_paths known"
  let ?paths = "filter (\<lambda>pkg. pkg \<noteq> []) (sorted_set (src_paths @ str_split CHR '','' known))"
  have v: "?v = str_join '','' ?paths"
    by (simp add: merged_src_paths_def)
  have d: "distinct ?paths"
    by (rule merged_list_distinct)
  have c: "count_list ?paths p = 1"
    if "p \<in> set src_paths \<union> set (comma_entries known)" and "p \<noteq> []" for p
  proof -
    from that have "p \<in> set src_paths \<union> set (str_split CHR '','' known)"
      by (auto simp: comma_entries_def split: if_splits)
    with that(2) have "p \<in> set ?paths"
      by (simp only: merged_list_set) simp
    with d show ?thesis by (rule count_list_distinct)
  qed
  have "comma_entries ?v = ?paths \<and> merged_src_paths src_paths ?v = ?v"
    if "\<forall>p\<in>set src_paths. CHR '','' \<notin> set p"
    using comma_entries_merged [OF that] merged_idem [OF that] by simp
  with s w v d c show ?thesis by blast
qed

text \<open>The theorem on the example file, whose \<open>src_paths\<close> is \<open>lib,app\<close>, merged with
  \<open>lib\<close> twice and \<open>src\<close>.\<close>

theorem merge_deduplicates_witness:
  "\<exists>fs'.
     generate_config_with_projects example_configparser example_files
       ''/work/.isort.cfg'' ''/tmp/t/.isort.cfg'' [''lib'', ''src'', ''lib''] = Inr fs' \<and>
     fs' ''/tmp/t/.isort.cfg''
       = Some (File (''[settings]'' @ [CHR 0x0A] @ ''src_paths = app,lib,src''
                       @ [CHR 0x0A, CHR 0x0A])) \<and>
     merge_written example_configparser example_files ''/work/.isort.cfg''
       (fs' ''/tmp/t/.isort.cfg'') ''settings'' ''lib,app'' ''app,lib,src'' \<and>
     comma_entries ''app,lib,src'' = [''app'', ''lib'', ''src''] \<and>
     count_list (comma_entries ''app,lib,src'') ''lib'' = 1 \<and>
     count_list (comma_entries ''app,lib,src'') ''app'' = 1 \<and>
     distinct (comma_entries ''app,lib,src'') \<and>
     merged_src_paths [''lib'', ''src'', ''lib''] ''app,lib,src'' = ''app,lib,src''"
proof -
  let ?r = "generate_config_with_projects example_configparser example_files
       ''/work/.isort.cfg'' ''/tmp/t/.isort.cfg'' [''lib'', ''src'', ''lib'']"
  have w: "written_at ?r ''/tmp/t/.isort.cfg''
       = Some (File (''[settings]'' @ [CHR 0x0A] @ ''src_paths = app,lib,src''
                       @ [CHR 0x0A, CHR 0x0A]))"
    by code_simp
  then obtain fs' where g: "?r = Inr fs'"
    by (cases ?r) (simp_all add: written_at_def)
  have nc: "\<forall>p\<in>set [''lib'', ''src'', ''lib'']. CHR '','' \<notin> set p"
    by simp
  have cs: "config_section ''/work/.isort.cfg'' = Some ''settings''"
    by code_simp
  have k: "(case load_config example_configparser example_files ''/work/.isort.cfg'' ''settings'' of
              Inl e \<Rightarrow> Inl e
            | Inr config \<Rightarrow> config_get example_configparser config ''settings'' ''src_paths'' [])
           = Inr ''lib,app''"
    by code_simp
  have v: "merged_src_paths [''lib'', ''src'', ''lib''] ''lib,app'' = ''app,lib,src''"
    "comma_entries ''lib,app'' = [''lib'', ''app'']"
    "comma_entries ''app,lib,src'' = [''app'', ''lib'', ''src'']"
    by code_simp+
  from merge_deduplicates [OF g] nc obtain sect known paths where
    1: "config_section ''/work/.isort.cfg'' = Some sect"
    and 2: "merge_written example_configparser example_files ''/work/.isort.cfg''
       (fs' ''/tmp/t/.isort.cfg'') sect known (merged_src_paths [''lib'', ''src'', ''lib''] known)"
    and 3: "\<forall>p\<in>set [''lib'', ''src'', ''lib''] \<union> set (comma_entries known).
       p \<noteq> [] \<longrightarrow> count_list paths p = 1"
    and 4: "distinct paths"
    and 5: "comma_entries (merged_src_paths [''lib'', ''src'', ''lib''] known) = paths"
    and 6: "merged_src_paths [''lib'', ''src'', ''lib'']
              (merged_src_paths [''lib'', ''src'', ''lib''] known)
            = merged_src_paths [''lib'', ''src'', ''lib''] known"
    by blast
  from 1 cs have sect: "sect = ''settings''" by simp
  from merge_written_known [OF 2 [unfolded sect]] k have known: "known = ''lib,app''" by simp
  from 5 have paths: "paths = comma_entries ''app,lib,src''" by (simp add: known v(1))
  from 3 have "count_list (comma_entries ''app,lib,src'') ''lib'' = 1"
    and "count_list (comma_entries ''app,lib,src'') ''app'' = 1"
    by (simp_all add: known v(2) paths)
  with 2 4 6 g w v(3) show ?thesis
    by (simp add: sect known v(1) paths written_at_def)
qed

text \<open>
  C1 as stated fails for a path with a comma: merging \<open>lib\<close> and \<open>lib,x\<close> writes
  \<open>app,lib,lib,x\<close>, where \<open>lib\<close> occurs twice, and merging the two paths into that value
  again changes it.
\<close>

theorem merge_deduplicates_counterexample:
  "written_at
     (generate_config_with_projects example_configparser example_files
        ''/work/.isort.cfg'' ''/tmp/t/.isort.cfg'' [''lib'', ''lib,x''])
     ''/tmp/t/.isort.cfg''
     = Some (File (''[settings]'' @ [CHR 0x0A] @ ''src_paths = app,lib,lib,x'' @ [CHR 0x0A, CHR 0x0A]))
   \<and> count_list (comma_entries ''app,lib,lib,x'') ''lib'' = 2
   \<and> merged_src_paths [''lib'', ''lib,x''] ''app,lib,lib,x'' \<noteq> ''app,lib,lib,x''"
  by code_simp

text \<open>
  C2, as amended. For a settings file with a supported suffix, a successful merge
  writes as \<open>src_paths\<close> the paths (those of the list and of the file's own
  \<open>src_paths\<close>, without the empty string) joined by commas in sorted order. When no
  source path contains a comma, the joined paths are the comma-separated entries of the
  written value, which are then in sorted order.
\<close>

theorem merge_sorted:
  assumes "generate_config_with_projects cp fs existing output src_paths = Inr fs'"
  shows "\<exists>sect known v paths.
           config_section existing = Some sect \<and>
           v = merged_src_paths src_paths known \<and>
           merge_written cp fs existing (fs' output) sect known v \<and>
           v = str_join '','' paths \<and>
           sorted paths \<and>
           set paths = set src_paths \<union> set (str_split CHR '','' known) - {[]} \<and>
           ((\<forall>p\<in>set src_paths. CHR '','' \<notin> set p) \<longrightarrow>
              comma_entries v = paths \<and> sorted (comma_entries v))"
proof -
  from assms(1) obtain sect known where
    s: "config_section existing = Some sect" and
    w: "merge_written cp fs existing (fs' output) sect known (merged_src_paths src_paths known)"
    by (rule generate_config_Inr)
  let ?v = "merged_src_paths src_paths known"
  let ?paths = "filter (\<lambda>pkg. pkg \<noteq> []) (sorted_set (src_paths @ str_split CHR '','' known))"
  have v: "?v = str_join '','' ?paths"
    by (simp add: merged_src_paths_def)
  have so: "sorted ?paths"
    by (rule merged_list_sorted)
  have se: "set ?paths = set src_paths \<union> set (str_split CHR '','' known) - {[]}"
    by (rule merged_list_set)
  have "comma_entries ?v = ?paths \<and> sorted (comma_entries ?v)"
    if "\<forall>p\<in>set src_paths. CHR '','' \<notin> set p"
    using comma_entries_merged [OF that] so by simp
  with s w v so se show ?thesis by blast
qed

theorem merge_sorted_witness:
  "\<exists>fs'.
     generate_config_with_projects example_configparser example_files
       ''/work/.isort.cfg'' ''/tmp/t/.isort.cfg'' [''lib'', ''/work/run/app''] = Inr fs' \<and>
     fs' ''/tmp/t/.isort.cfg''
       = Some (File (''[settings]'' @ [CHR 0x0A] @ ''src_paths = /work/run/app,app,lib''
                       @ [CHR 0x0A, CHR 0x0A])) \<and>
     merge_written example_configparser example_files ''/work/.isort.cfg''
       (fs' ''/tmp/t/.isort.cfg'') ''settings'' ''lib,app'' ''/work/run/app,app,lib'' \<and>
     comma_entries ''/work/run/app,app,lib'' = [''/work/run/app'', ''app'', ''lib''] \<and>
     sorted (comma_entries ''/work/run/app,app,lib'')"
proof -
  let ?r = "generate_config_with_projects example_configparser example_files
       ''/work/.isort.cfg'' ''/tmp/t/.isort.cfg'' [''lib'', ''/work/run/app'']"
  have w: "written_at ?r ''/tmp/t/.isort.cfg''
       = Some (File (''[settings]'' @ [CHR 0x0A] @ ''src_paths = /work/run/app,app,lib''
                       @ [CHR 0x0A, CHR 0x0A]))"
    by code_simp
  then obtain fs' where g: "?r = Inr fs'"
    by (cases ?r) (simp_all add: written_at_def)
  have nc: "\<forall>p\<in>set [''lib'', ''/work/run/app'']. CHR '','' \<notin> set p"
    by simp
  have cs: "config_section ''/work/.isort.cfg'' = Some ''settings''"
    by code_simp
  have k: "(case load_config example_configparser example_files ''/work/.isort.cfg'' ''settings'' of
              Inl e \<Rightarrow> Inl e
            | Inr config \<Rightarrow> config_get example_configparser config ''settings'' ''src_paths'' [])
           = Inr ''lib,app''"
    by code_simp
  have v: "merged_src_paths [''lib'', ''/work/run/app''] ''lib,app'' = ''/work/run/app,app,lib''"
    "comma_entries ''/work/run/app,app,lib'' = [''/work/run/app'', ''app'', ''lib'']"
    by code_simp+
  from merge_sorted [OF g] nc obtain sect known where
    1: "config_section ''/work/.isort.cfg'' = Some sect"
    and 2: "merge_written example_configparser example_files ''/work/.isort.cfg''
       (fs' ''/tmp/t/.isort.cfg'') sect known (merged_src_paths [''lib'', ''/work/run/app''] known)"
    and 3: "sorted (comma_entries (merged_src_paths [''lib'', ''/work/run/app''] known))"
    by blast
  from 1 cs have sect: "sect = ''settings''" by simp
  from merge_written_known [OF 2 [unfolded sect]] k have known: "known = ''lib,app''" by simp
  from 2 3 g w v(2) show ?thesis
    by (simp add: sect known v(1) written_at_def)
qed

text \<open>C2 as stated fails for a path with a comma: merging \<open>z,a\<close> writes \<open>app,lib,z,a\<close>,
  whose entries are not sorted.\<close>

theorem merge_sorted_counterexample:
  "written_at
     (generate_config_with_projects example_configparser example_files
        ''/work/.isort.cfg'' ''/tmp/t/.isort.cfg'' [''z,a''])
     ''/tmp/t/.isort.cfg''
     = Some (File (''[settings]'' @ [CHR 0x0A] @ ''src_paths = app,lib,z,a'' @ [CHR 0x0A, CHR 0x0A]))
   \<and> comma_entries ''app,lib,z,a'' = [''app'', ''lib'', ''z'', ''a'']
   \<and> \<not> sorted (comma_entries ''app,lib,z,a'')"
  by code_simp

text \<open>
  C9, as amended. For a settings file with a supported suffix, the empty strings of the
  list and of the file's own \<open>src_paths\<close> (also when the file has none) are left out
  of the written \<open>src_paths\<close> value. The value has no empty comma-separated entry
  exactly when no source path, unless empty, has an empty piece between its own commas
  (it neither starts nor ends with a comma and has no two in a row); so it has none
  when no source path contains a comma.
\<close>

theorem merge_no_empty_entry:
  assumes "generate_config_with_projects cp fs existing output src_paths = Inr fs'"
  shows "\<exists>sect known v.
           config_section existing = Some sect \<and>
           v = merged_src_paths src_paths known \<and>
           merge_written cp fs existing (fs' output) sect known v \<and>
           ([] \<notin> set (comma_entries v) \<longleftrightarrow>
              (\<forall>p\<in>set src_paths. p \<noteq> [] \<longrightarrow> [] \<notin> set (str_split CHR '','' p))) \<and>
           ((\<forall>p\<in>set src_paths. CHR '','' \<notin> set p) \<longrightarrow> [] \<notin> set (comma_entries v))"
proof -
  from assms(1) obtain sect known where
    s: "config_section existing = Some sect" and
    w: "merge_written cp fs existing (fs' output) sect known (merged_src_paths src_paths known)"
    by (rule generate_config_Inr)
  let ?v = "merged_src_paths src_paths known"
  have iff: "[] \<notin> set (comma_entries ?v) \<longleftrightarrow>
              (\<forall>p\<in>set src_paths. p \<noteq> [] \<longrightarrow> [] \<notin> set (str_split CHR '','' p))"
    by (auto simp: empty_entry_merged)
  have "[] \<notin> set (comma_entries ?v)" if "\<forall>p\<in>set src_paths. CHR '','' \<notin> set p"
    using that by (simp add: comma_entries_merged)
  with s w iff show ?thesis by blast
qed

text \<open>The theorem on \<open>/work/setup.cfg\<close>, which does not exist (so there is no known
  \<open>src_paths\<close>), merged with two empty strings and \<open>lib\<close>.\<close>

theorem merge_no_empty_entry_witness:
  "\<exists>fs'.
     generate_config_with_projects example_configparser example_files
       ''/work/setup.cfg'' ''/tmp/t/setup.cfg'' [[], ''lib'', []] = Inr fs' \<and>
     fs' ''/tmp/t/setup.cfg''
       = Some (File (''[isort]'' @ [CHR 0x0A] @ ''src_paths = lib'' @ [CHR 0x0A, CHR 0x0A])) \<and>
     merge_written example_configparser example_files ''/work/setup.cfg''
       (fs' ''/tmp/t/setup.cfg'') ''isort'' [] ''lib'' \<and>
     str_split CHR '','' [] = [[]] \<and>
     comma_entries ''lib'' = [''lib''] \<and>
     [] \<notin> set (comma_entries ''lib'')"
proof -
  let ?r = "generate_config_with_projects example_configparser example_files
       ''/work/setup.cfg'' ''/tmp/t/setup.cfg'' [[], ''lib'', []]"
  have w: "written_at ?r ''/tmp/t/setup.cfg''
       = Some (File (''[isort]'' @ [CHR 0x0A] @ ''src_paths = lib'' @ [CHR 0x0A, CHR 0x0A]))"
    by code_simp
  then obtain fs' where g: "?r = Inr fs'"
    by (cases ?r) (simp_all add: written_at_def)
  have nc: "\<forall>p\<in>set [[], ''lib'', []]. CHR '','' \<notin> set p"
    by simp
  have cs: "config_section ''/work/setup.cfg'' = Some ''isort''"
    by code_simp
  have k: "(case load_config example_configparser example_files ''/work/setup.cfg'' ''isort'' of
              Inl e \<Rightarrow> Inl e
            | Inr config \<Rightarrow> config_get example_configparser config ''isort'' ''src_paths'' [])
           = Inr []"
    by code_simp
  have v: "merged_src_paths [[], ''lib'', []] [] = ''lib''"
    "comma_entries ''lib'' = [''lib'']"
    by code_simp+
  from merge_no_empty_entry [OF g] nc obtain sect known where
    1: "config_section ''/work/setup.cfg'' = Some sect"
    and 2: "merge_written example_configparser example_files ''/work/setup.cfg''
       (fs' ''/tmp/t/setup.cfg'') sect known (merged_src_paths [[], ''lib'', []] known)"
    and 3: "[] \<notin> set (comma_entries (merged_src_paths [[], ''lib'', []] known))"
    by blast
  from 1 cs have sect: "sect = ''isort''" by simp
  from merge_written_known [OF 2 [unfolded sect]] k have known: "known = []" by simp
  from 2 3 g w v(2) show ?thesis
    by (simp add: sect known v(1) written_at_def)
qed

text \<open>C9 as stated fails for a path with a comma: merging \<open>src,\<close> writes \<open>app,lib,src,\<close>,
  whose last entry is empty.\<close>

theorem merge_no_empty_entry_counterexample:
  "written_at
     (generate_config_with_projects example_configparser example_files
        ''/work/.isort.cfg'' ''/tmp/t/.isort.cfg'' [''src,''])
     ''/tmp/t/.isort.cfg''
     = Some (File (''[settings]'' @ [CHR 0x0A] @ ''src_paths = app,lib,src,'' @ [CHR 0x0A, CHR 0x0A]))
   \<and> comma_entries ''app,lib,src,'' = [''app'', ''lib'', ''src'', []]
   \<and> [] \<in> set (comma_entries ''app,lib,src,'')"
  by code_simp

subsection \<open>The settings file\<close>

text \<open>
  C3. For a settings file whose name ends with none of \<open>.isort.cfg\<close>, \<open>.cfg\<close> and
  \<open>.ini\<close>, and so for every name that ends with \<open>.toml\<close>,
  \<open>generate_config_with_projects\<close> raises: \<open>NotImplementedError\<close> when the name ends with
  \<open>pyproject.toml\<close>, else the \<open>ValueError\<close> that names the file. It writes nothing.
\<close>

theorem unsupported_suffix_raises:
  assumes "(\<not> endswith (path_name existing) ''.isort.cfg'' \<and>
            \<not> endswith (path_name existing) ''.cfg'' \<and>
            \<not> endswith (path_name existing) ''.ini'') \<or>
           endswith (path_name existing) ''.toml''"
  shows "generate_config_with_projects cp fs existing output src_paths =
           (if endswith (path_name existing) ''pyproject.toml'' then
              Inl (NotImplementedError ''There is no writer for tomllib'')
            else
              Inl (ValueError (''Unexpected isort config file '' @ [CHR 0x27] @ existing
                                 @ [CHR 0x27] @ ''.''))) \<and>
         written_at (generate_config_with_projects cp fs existing output src_paths) output
           = None"
proof -
  from assms have "\<not> endswith (path_name existing) ''.cfg''"
    and "\<not> endswith (path_name existing) ''.ini''"
    using toml_unsupported by blast+
  from unsupported_cases [OF this] show ?thesis
    by (simp add: written_at_def)
qed

theorem unsupported_suffix_raises_witness:
  "generate_config_with_projects example_configparser example_files
     ''/work/pyproject.toml'' ''/tmp/t/pyproject.toml'' [''app'']
     = Inl (NotImplementedError ''There is no writer for tomllib'')
   \<and> generate_config_with_projects example_configparser example_files
     ''/work/setup.toml'' ''/tmp/t/setup.toml'' [''app'']
     = Inl (ValueError (''Unexpected isort config file '' @ [CHR 0x27] @ ''/work/setup.toml''
                                 @ [CHR 0x27] @ ''.''))
   \<and> generate_config_with_projects example_configparser example_files
     ''/work/settings.yaml'' ''/tmp/t/settings.yaml'' [''app'']
     = Inl (ValueError (''Unexpected isort config file '' @ [CHR 0x27] @ ''/work/settings.yaml''
                                 @ [CHR 0x27] @ ''.''))"
proof -
  have a: "endswith (path_name ''/work/pyproject.toml'') ''.toml''"
      "endswith (path_name ''/work/pyproject.toml'') ''pyproject.toml''"
    by code_simp+
  have b: "endswith (path_name ''/work/setup.toml'') ''.toml''"
      "\<not> endswith (path_name ''/work/setup.toml'') ''pyproject.toml''"
    by code_simp+
  have c: "\<not> endswith (path_name ''/work/settings.yaml'') ''.isort.cfg'' \<and>
      \<not> endswith (path_name ''/work/settings.yaml'') ''.cfg'' \<and>
      \<not> endswith (path_name ''/work/settings.yaml'') ''.ini''"
      "\<not> endswith (path_name ''/work/settings.yaml'') ''pyproject.toml''"
    by code_simp+
  show ?thesis
    using unsupported_suffix_raises [OF disjI2, OF a(1)]
      unsupported_suffix_raises [OF disjI2, OF b(1)]
      unsupported_suffix_raises [OF disjI1, OF c(1)] a(2) b(2) c(2)
    by simp
qed

text \<open>
  C8. A successful \<open>generate_config_with_projects\<close> changes the file system at the
  output path only: with an output path other than the existing settings file, as
  \<open>main\<close> has it in its temporary directory, the existing file is as it was.
\<close>

theorem existing_file_untouched:
  assumes "generate_config_with_projects cp fs existing output src_paths = Inr fs'"
    and "output \<noteq> existing"
  shows "fs' existing = fs existing \<and> (\<forall>p. p \<noteq> output \<longrightarrow> fs' p = fs p)"
proof -
  from assms(1) have "fs' = fs(output \<mapsto> the (fs' output))"
    by (rule generate_config_Inr)
  then have "fs' p = fs p" if "p \<noteq> output" for p
    using that by (metis fun_upd_other)
  with assms(2) show ?thesis by simp
qed

theorem existing_file_untouched_witness:
  "\<exists>fs'.
     generate_config_with_projects example_configparser example_files
       ''/work/.isort.cfg'' ''/tmp/t/.isort.cfg'' [''/work/run/app''] = Inr fs' \<and>
     fs' ''/work/.isort.cfg'' = example_files ''/work/.isort.cfg'' \<and>
     fs' ''/work/a.py'' = example_files ''/work/a.py'' \<and>
     fs' ''/tmp/t/.isort.cfg''
       = Some (File (''[settings]'' @ [CHR 0x0A] @ ''src_paths = /work/run/app,app,lib''
                       @ [CHR 0x0A, CHR 0x0A]))"
proof -
  let ?r = "generate_config_with_projects example_configparser example_files
       ''/work/.isort.cfg'' ''/tmp/t/.isort.cfg'' [''/work/run/app'']"
  have w: "written_at ?r ''/tmp/t/.isort.cfg''
       = Some (File (''[settings]'' @ [CHR 0x0A] @ ''src_paths = /work/run/app,app,lib''
                       @ [CHR 0x0A, CHR 0x0A]))"
    by code_simp
  then obtain fs' where g: "?r = Inr fs'"
    by (cases ?r) (simp_all add: written_at_def)
  have ne: "''/tmp/t/.isort.cfg'' \<noteq> ''/work/.isort.cfg''" by simp
  from existing_file_untouched [OF g ne] g w show ?thesis
    by (auto simp: written_at_def)
qed



subsection \<open>The subprocess\<close>

text \<open>
  C4, as amended. When the subprocess exits with a code other than zero, \<open>main\<close> prints
  one string to \<open>sys.stderr\<close>: the captured output in which the occurrences of the value
  of \<open>RUNFILES_DIR\<close> (when it is set, and not empty), found from left to right without
  overlap, are replaced by \<open>//\<close>, and then those of the working directory by \<open>/\<close>.
  The pieces between the replaced occurrences contain no occurrence of the replaced
  path. The printed string as a whole may contain either path where a replacement
  meets its neighbours.
\<close>

theorem relayed_output_redacted:
  assumes "main pf w argv = (r, w')"
    and "spawned w' = spawned w @ [proc]"
    and "returncode proc \<noteq> 0"
    and "cwd w \<noteq> []"
    and "environ w ''RUNFILES_DIR'' \<noteq> Some []"
  shows "\<exists>mid.
           (case environ w ''RUNFILES_DIR'' of
              None \<Rightarrow> mid = stdout proc
            | Some d \<Rightarrow>
                str_join d (pieces d (stdout proc)) = stdout proc \<and>
                (\<forall>q\<in>set (pieces d (stdout proc)). \<not> contains q d) \<and>
                mid = str_join ''//'' (pieces d (stdout proc))) \<and>
           str_join (cwd w) (pieces (cwd w) mid) = mid \<and>
           (\<forall>p\<in>set (pieces (cwd w) mid). \<not> contains p (cwd w)) \<and>
           printed w' = printed w @ [str_join ''/'' (pieces (cwd w) mid)]"
proof -
  have nz: "printed w' = printed w @ [sanitize w (stdout proc)]"
    by (rule main_nonzero(2) [OF assms(1,2,3)])
  define mid where "mid =
    (case environ w ''RUNFILES_DIR'' of None \<Rightarrow> stdout proc
     | Some d \<Rightarrow> str_replace d ''//'' (stdout proc))"
  have 1: "case environ w ''RUNFILES_DIR'' of
              None \<Rightarrow> mid = stdout proc
            | Some d \<Rightarrow>
                str_join d (pieces d (stdout proc)) = stdout proc \<and>
                (\<forall>q\<in>set (pieces d (stdout proc)). \<not> contains q d) \<and>
                mid = str_join ''//'' (pieces d (stdout proc))"
  proof (cases "environ w ''RUNFILES_DIR''")
    case None
    then show ?thesis by (simp add: mid_def)
  next
    case (Some d)
    with assms(5) have "d \<noteq> []" by simp
    from str_replace_pieces [OF this] Some show ?thesis by (simp add: mid_def)
  qed
  have "sanitize w (stdout proc) = str_replace (cwd w) ''/'' mid"
    by (simp add: sanitize_def mid_def)
  with nz str_replace_pieces [OF assms(4)] 1 show ?thesis
    by (intro exI [of _ mid]) simp
qed

theorem relayed_output_redacted_witness:
  "map returncode
     (spawned (snd (main (example_platform (example_run 3 ''ERROR: /work/run/x.py /work/a.py''))
                      example_world example_argv))) = [3]
   \<and> printed (snd (main (example_platform (example_run 3 ''ERROR: /work/run/x.py /work/a.py''))
                      example_world example_argv)) = [''ERROR: ///x.py //a.py'']
   \<and> pieces ''/work/run'' ''ERROR: /work/run/x.py /work/a.py'' = [''ERROR: '', ''/x.py /work/a.py'']
   \<and> pieces ''/work'' ''ERROR: ///x.py /work/a.py'' = [''ERROR: ///x.py '', ''/a.py'']
   \<and> (\<exists>mid.
         mid = str_join ''//'' (pieces ''/work/run'' ''ERROR: /work/run/x.py /work/a.py'') \<and>
         str_join ''/work'' (pieces ''/work'' mid) = mid \<and>
         list_all (\<lambda>p. \<not> contains p ''/work'') (pieces ''/work'' mid) \<and>
         [''ERROR: ///x.py //a.py''] = [str_join ''/'' (pieces ''/work'' mid)])"
proof -
  let ?out = "''ERROR: /work/run/x.py /work/a.py''"
  let ?pf = "example_platform (example_run 3 ?out)"
  let ?m = "main ?pf example_world example_argv"
  have m: "?m = (fst ?m, snd ?m)" by simp
  have sp: "spawned (snd ?m) = spawned example_world @ [last (spawned (snd ?m))]"
    by code_simp
  have rc: "returncode (last (spawned (snd ?m))) \<noteq> 0" by code_simp
  have so: "stdout (last (spawned (snd ?m))) = ?out" by code_simp
  have cw: "cwd example_world \<noteq> []" "cwd example_world = ''/work''" by code_simp+
  have rf: "environ example_world ''RUNFILES_DIR'' \<noteq> Some []"
    "environ example_world ''RUNFILES_DIR'' = Some ''/work/run''" by code_simp+
  have ev: "map returncode (spawned (snd ?m)) = [3]"
    "printed (snd ?m) = [''ERROR: ///x.py //a.py'']"
    "printed example_world = []"
    "pieces ''/work/run'' ?out = [''ERROR: '', ''/x.py /work/a.py'']"
    "pieces ''/work'' ''ERROR: ///x.py /work/a.py'' = [''ERROR: ///x.py '', ''/a.py'']"
    by code_simp+
  from relayed_output_redacted [OF m sp rc cw(1) rf(1)]
  obtain mid where
    "mid = str_join ''//'' (pieces ''/work/run'' ?out)"
    "str_join ''/work'' (pieces ''/work'' mid) = mid"
    "\<forall>p\<in>set (pieces ''/work'' mid). \<not> contains p ''/work''"
    "printed (snd ?m) = printed example_world @ [str_join ''/'' (pieces ''/work'' mid)]"
    by (auto simp: rf(2) cw(2) so)
  with ev show ?thesis
    by (auto simp: list_all_iff)
qed

text \<open>
  C4 as stated fails: with the working directory \<open>/work\<close> and \<open>RUNFILES_DIR\<close> set to
  \<open>/work/run\<close>, the captured output \<open>ERROR: /workwork/run/a.py\<close> is printed as
  \<open>ERROR: /work/run/a.py\<close>, which contains both paths.
\<close>

theorem relayed_output_redacted_counterexample:
  "map returncode
     (spawned (snd (main (example_platform (example_run 1 ''ERROR: /workwork/run/a.py''))
                      example_world example_argv))) = [1]
   \<and> printed (snd (main (example_platform (example_run 1 ''ERROR: /workwork/run/a.py''))
                      example_world example_argv)) = [''ERROR: /work/run/a.py'']
   \<and> environ example_world ''RUNFILES_DIR'' = Some ''/work/run''
   \<and> cwd example_world = ''/work''
   \<and> contains ''ERROR: /work/run/a.py'' ''/work/run''
   \<and> contains ''ERROR: /work/run/a.py'' ''/work''"
  by code_simp

text \<open>
  C5, as amended. Every run of \<open>main\<close> either ends with an exception before any
  subprocess is run, or runs exactly one subprocess. A return code other than zero is
  given to \<open>sys.exit\<close> unchanged, so the exit status is the code modulo 256: the code
  itself from 1 to 255, and 256 - n for the code -n of a subprocess killed by signal n.
  After the return code zero \<open>main\<close> returns (exit status 0), unless a marker was asked
  for and writing it raises: then that exception ends \<open>main\<close> (exit status 1).
\<close>

theorem exit_code_propagated:
  assumes "main pf w argv = (r, w')"
  shows "(spawned w' = spawned w \<and> (\<exists>e. r = Some e)) \<or>
         (\<exists>proc. spawned w' = spawned w @ [proc] \<and>
            (returncode proc \<noteq> 0 \<longrightarrow>
               r = Some (SystemExit (returncode proc)) \<and>
               exit_status r = returncode proc mod 256 \<and>
               (0 < returncode proc \<and> returncode proc < 256 \<longrightarrow>
                  exit_status r = returncode proc)) \<and>
            (returncode proc = 0 \<longrightarrow>
               (r = None \<and> exit_status r = 0) \<or>
               (\<exists>args m e. load_args pf w argv = Inr args \<and> a_marker args = Some m \<and>
                  write_file (files w') m [] = Inl e \<and> r = Some e \<and> exit_status r = 1)))"
  using assms
proof (cases rule: main_cases)
  case (failed e)
  then show ?thesis by simp
next
  case (ran args existing imps result w2)
  from run_isort_Inr(1) [OF ran(4)] report_fields(1) [OF ran(5)]
  have sp: "spawned w' = spawned w @ [result]" by simp
  have a: "r = Some (SystemExit (returncode result)) \<and>
               exit_status r = returncode result mod 256 \<and>
               (0 < returncode result \<and> returncode result < 256 \<longrightarrow>
                  exit_status r = returncode result)"
    if "returncode result \<noteq> 0"
    using main_nonzero(1) [OF assms sp that] by (simp add: exit_status_def)
  have b: "(r = None \<and> exit_status r = 0) \<or>
               (\<exists>args m e. load_args pf w argv = Inr args \<and> a_marker args = Some m \<and>
                  write_file (files w') m [] = Inl e \<and> r = Some e \<and> exit_status r = 1)"
    if z: "returncode result = 0"
  proof (cases "a_marker args")
    case None
    from main_zero(2) [OF assms sp z ran(1) None] show ?thesis
      by (simp add: exit_status_def)
  next
    case (Some m)
    from main_zero(3) [OF assms sp z ran(1) Some] show ?thesis
    proof
      assume "r = None \<and> files w' m = Some (File []) \<and>
            \<not> is_dir (files w') m \<and> is_dir (files w') (path_parent m)"
      then show ?thesis by (simp add: exit_status_def)
    next
      assume "\<exists>e. r = Some e \<and> write_file (files w') m [] = Inl e \<and>
                (is_dir (files w') m \<or> \<not> is_dir (files w') (path_parent m))"
      then obtain e where e: "r = Some e" "write_file (files w') m [] = Inl e" by blast
      have "exit_status r = 1"
        using exit_status_write_error [OF e(2)] e(1) by simp
      with ran(1) Some e have "load_args pf w argv = Inr args \<and> a_marker args = Some m \<and>
                  write_file (files w') m [] = Inl e \<and> r = Some e \<and> exit_status r = 1"
        by simp
      then show ?thesis by (intro disjI2 exI)
    qed
  qed
  from a have c: "returncode result \<noteq> 0 \<longrightarrow>
               r = Some (SystemExit (returncode result)) \<and>
               exit_status r = returncode result mod 256 \<and>
               (0 < returncode result \<and> returncode result < 256 \<longrightarrow>
                  exit_status r = returncode result)"
    by (rule impI)
  from b have d: "returncode result = 0 \<longrightarrow>
               (r = None \<and> exit_status r = 0) \<or>
               (\<exists>args m e. load_args pf w argv = Inr args \<and> a_marker args = Some m \<and>
                  write_file (files w') m [] = Inl e \<and> r = Some e \<and> exit_status r = 1)"
    by (rule impI)
  note conjI [OF sp conjI [OF c d]]
  then show ?thesis by (intro disjI2 exI)
qed

theorem exit_code_propagated_witness:
  "map returncode
     (spawned (snd (main (example_platform (example_run 3 ''ERROR: /work/a.py''))
                      example_world example_argv))) = [3]
   \<and> fst (main (example_platform (example_run 3 ''ERROR: /work/a.py''))
                         example_world example_argv) = Some (SystemExit 3)
   \<and> exit_status (fst (main (example_platform (example_run 3 ''ERROR: /work/a.py''))
                         example_world example_argv)) = 3
   \<and> map returncode
     (spawned (snd (main (example_platform (example_run 0 []))
                      example_world example_argv))) = [0]
   \<and> exit_status (fst (main (example_platform (example_run 0 []))
                         example_world example_argv)) = 0"
proof -
  let ?m = "main (example_platform (example_run 3 ''ERROR: /work/a.py'')) example_world example_argv"
  let ?n = "main (example_platform (example_run 0 [])) example_world example_argv"
  have ev: "map returncode (spawned (snd ?m)) = [3]" "spawned example_world = []"
    "map returncode (spawned (snd ?n)) = [0]" "fst ?n = None"
    by code_simp+
  have "?m = (fst ?m, snd ?m)" by simp
  from exit_code_propagated [OF this] ev(1,2)
  have 1: "fst ?m = Some (SystemExit 3)" and 2: "exit_status (fst ?m) = 3" by auto
  have "?n = (fst ?n, snd ?n)" by simp
  from exit_code_propagated [OF this] ev(2,3,4)
  have 3: "exit_status (fst ?n) = 0" by auto
  from ev(1) 1 2 ev(3) 3 show ?thesis by (intro conjI)
qed

text \<open>
  C5 as stated fails: a subprocess with the return code -9 gives the exit status 247,
  and a subprocess with the return code 0 gives the exit status 1 when the marker is to
  go into a directory that does not exist.
\<close>

theorem exit_code_propagated_counterexample:
  "map returncode
     (spawned (snd (main (example_platform (example_run (- 9) ''Killed''))
                      example_world example_argv))) = [- 9]
   \<and> exit_status (fst (main (example_platform (example_run (- 9) ''Killed''))
                         example_world example_argv)) = 247
   \<and> map returncode
     (spawned (snd (main (example_platform (example_run 0 []))
                      example_world example_argv_lost_marker))) = [0]
   \<and> fst (main (example_platform (example_run 0 []))
                         example_world example_argv_lost_marker)
       = Some (FileNotFoundError ''/missing/ok'')
   \<and> exit_status (fst (main (example_platform (example_run 0 []))
                         example_world example_argv_lost_marker)) = 1"
  by code_simp




subsection \<open>Errors\<close>



end
